theory Spec2Isabelle
  imports Main "HOL-Library.Word"
begin

section \<open>Common types\<close>

type_synonym UINT8 = "8 word"
type_synonym uint64_t = "64 word"

text \<open>
  The UEFI status codes the two source files return or test. \<open>EFI_ERROR\<close> is the
  gnu-efi macro: every code but \<open>EFI_SUCCESS\<close> used here is an error code.
\<close>

datatype EFI_STATUS =
    EFI_SUCCESS
  | EFI_LOAD_ERROR
  | EFI_INVALID_PARAMETER
  | EFI_NOT_FOUND
  | EFI_OUT_OF_RESOURCES
  | EFI_NOT_READY
  | EFI_DEVICE_ERROR
  | EFI_ACCESS_DENIED

definition EFI_ERROR :: "EFI_STATUS \<Rightarrow> bool" where
  "EFI_ERROR ret = (ret \<noteq> EFI_SUCCESS)"

text \<open>
  Modelled from the spec: \<open>enum boot_target\<close> is declared in targets.h, which is not
  among the sources. The spec (section 3) lists exactly these variants.
\<close>

datatype boot_target =
    NORMAL_BOOT
  | RECOVERY
  | FASTBOOT
  | CHARGER
  | POWER_OFF
  | MEMORY
  | ESP_BOOTIMAGE
  | ESP_EFI_BINARY
  | DNX
  | CRASHMODE
  | EXIT_SHELL
  | UNKNOWN_TARGET

text \<open>
  Modelled from the spec: the \<open>BOOT_STATE_*\<close> constants are declared in a header that is
  not among the sources. The spec (sections 3, 8 and 9) gives the trust state as a
  fixed-width integer with the total order GREEN < YELLOW < ORANGE < RED and GREEN
  written as 0x00; the code holds it in a \<open>UINT8\<close> and compares it with \<open><\<close> and
  \<open><=\<close>.
\<close>

definition BOOT_STATE_GREEN :: UINT8 where "BOOT_STATE_GREEN = 0"
definition BOOT_STATE_YELLOW :: UINT8 where "BOOT_STATE_YELLOW = 1"
definition BOOT_STATE_ORANGE :: UINT8 where "BOOT_STATE_ORANGE = 2"
definition BOOT_STATE_RED :: UINT8 where "BOOT_STATE_RED = 3"


section \<open>The AVB adapter (src/unnamed/part_000)\<close>

subsection \<open>Data handed over by the verifier\<close>

text \<open>
  \<open>AvbPartitionData\<close> and \<open>AvbSlotVerifyData\<close> (\<open>VBDATA\<close>) with the fields the adapter
  reads. \<open>loaded_partitions\<close> is the array whose length is \<open>num_loaded_partitions\<close>;
  \<open>rollback_indexes\<close> is the array indexed by rollback location; \<open>cmdline\<close> is
  \<open>None\<close> for a NULL pointer.
\<close>

record AvbPartitionData =
  partition_name :: string
  data :: "8 word list"

record AvbSlotVerifyData =
  loaded_partitions :: "AvbPartitionData list"
  rollback_indexes :: "nat \<Rightarrow> uint64_t"
  ab_suffix :: string
  cmdline :: "string option"

definition num_loaded_partitions :: "AvbSlotVerifyData \<Rightarrow> nat" where
  "num_loaded_partitions slot_data = length (loaded_partitions slot_data)"

datatype AvbSlotVerifyResult =
    AVB_SLOT_VERIFY_RESULT_OK
  | AVB_SLOT_VERIFY_RESULT_ERROR_OOM
  | AVB_SLOT_VERIFY_RESULT_ERROR_IO
  | AVB_SLOT_VERIFY_RESULT_ERROR_VERIFICATION
  | AVB_SLOT_VERIFY_RESULT_ERROR_ROLLBACK_INDEX
  | AVB_SLOT_VERIFY_RESULT_ERROR_PUBLIC_KEY_REJECTED
  | AVB_SLOT_VERIFY_RESULT_ERROR_INVALID_METADATA
  | AVB_SLOT_VERIFY_RESULT_ERROR_UNSUPPORTED_VERSION
  | AVB_SLOT_VERIFY_RESULT_ERROR_INVALID_ARGUMENT

datatype AvbABFlowResult =
    AVB_AB_FLOW_RESULT_OK
  | AVB_AB_FLOW_RESULT_OK_WITH_VERIFICATION_ERROR
  | AVB_AB_FLOW_RESULT_ERROR_OOM
  | AVB_AB_FLOW_RESULT_ERROR_IO
  | AVB_AB_FLOW_RESULT_ERROR_NO_BOOTABLE_SLOTS
  | AVB_AB_FLOW_RESULT_ERROR_INVALID_ARGUMENT

text \<open>
  \<open>AvbSlotVerifyFlags\<close> is a bit set; \<open>flags |= F\<close> is \<open>insert F flags\<close> and
  \<open>AVB_SLOT_VERIFY_FLAGS_NONE\<close> is the empty set.
\<close>

datatype AvbSlotVerifyFlag = AVB_SLOT_VERIFY_FLAGS_ALLOW_VERIFICATION_ERROR

definition AVB_SLOT_VERIFY_FLAGS_NONE :: "AvbSlotVerifyFlag set" where
  "AVB_SLOT_VERIFY_FLAGS_NONE = {}"

subsection \<open>The boot image magic\<close>

text \<open>
  Modelled from the spec: \<open>BOOT_MAGIC_SIZE\<close> is declared in a header that is not among
  the sources; the spec gives the magic as 8 bytes. The bytes of \<open>BOOT_MAGIC\<close> itself are
  a parameter \<open>boot_magic\<close> of every function that compares against it.
\<close>

definition BOOT_MAGIC_SIZE :: nat where "BOOT_MAGIC_SIZE = 8"

text \<open>
  \<open>avb_memcmp\<close> of the verified-boot library compares the first \<open>n\<close> bytes. The adapter
  only tests the result against zero, so the model returns 0 for equal prefixes and 1
  otherwise. A buffer shorter than \<open>n\<close> would be read past its end by the C code; the
  model compares what is there.
\<close>

definition avb_memcmp :: "8 word list \<Rightarrow> 8 word list \<Rightarrow> nat \<Rightarrow> int" where
  "avb_memcmp s1 s2 n = (if take n s1 = take n s2 then 0 else 1)"

text \<open>\<open>header->magic\<close> for \<open>header = (const struct boot_img_hdr *)boot->data\<close>.\<close>

definition header_magic :: "AvbPartitionData \<Rightarrow> 8 word list" where
  "header_magic boot = take BOOT_MAGIC_SIZE (data boot)"

subsection \<open>get_avb_flow_result and get_avb_result\<close>

text \<open>
  Both take \<open>slot_data\<close> and \<open>boot_state\<close> as pointers that may be NULL (\<open>None\<close>) and
  return the status together with the updated \<open>*boot_state\<close>.
\<close>

definition get_avb_flow_result ::
  "8 word list \<Rightarrow> AvbSlotVerifyData option \<Rightarrow> bool \<Rightarrow> AvbABFlowResult \<Rightarrow> UINT8 option
     \<Rightarrow> EFI_STATUS \<times> UINT8 option" where
  "get_avb_flow_result boot_magic slot_data allow_verification_error flow_result boot_state =
     (case (slot_data, boot_state) of
        (Some sd, Some bs) \<Rightarrow>
          if num_loaded_partitions sd < 1 then (EFI_LOAD_ERROR, boot_state)
          else
            let boot = hd (loaded_partitions sd) in
            if avb_memcmp boot_magic (header_magic boot) BOOT_MAGIC_SIZE \<noteq> 0
            then (EFI_NOT_FOUND, boot_state)
            else
              (case flow_result of
                 AVB_AB_FLOW_RESULT_OK \<Rightarrow>
                   if allow_verification_error \<and> bs < BOOT_STATE_ORANGE
                   then (EFI_SUCCESS, Some BOOT_STATE_ORANGE)
                   else (EFI_SUCCESS, Some bs)
               | AVB_AB_FLOW_RESULT_OK_WITH_VERIFICATION_ERROR \<Rightarrow>
                   if allow_verification_error \<and> bs \<le> BOOT_STATE_ORANGE
                   then (EFI_SUCCESS, Some BOOT_STATE_ORANGE)
                   else (EFI_SUCCESS, Some BOOT_STATE_RED)
               | AVB_AB_FLOW_RESULT_ERROR_OOM \<Rightarrow>
                   if allow_verification_error \<and> bs \<le> BOOT_STATE_ORANGE
                   then (EFI_SUCCESS, Some BOOT_STATE_ORANGE)
                   else (EFI_SUCCESS, Some BOOT_STATE_RED)
               | AVB_AB_FLOW_RESULT_ERROR_IO \<Rightarrow>
                   if allow_verification_error \<and> bs \<le> BOOT_STATE_ORANGE
                   then (EFI_SUCCESS, Some BOOT_STATE_ORANGE)
                   else (EFI_SUCCESS, Some BOOT_STATE_RED)
               | AVB_AB_FLOW_RESULT_ERROR_NO_BOOTABLE_SLOTS \<Rightarrow>
                   if allow_verification_error \<and> bs \<le> BOOT_STATE_ORANGE
                   then (EFI_SUCCESS, Some BOOT_STATE_ORANGE)
                   else (EFI_SUCCESS, Some BOOT_STATE_RED)
               | AVB_AB_FLOW_RESULT_ERROR_INVALID_ARGUMENT \<Rightarrow>
                   if allow_verification_error \<and> bs \<le> BOOT_STATE_ORANGE
                   then (EFI_SUCCESS, Some BOOT_STATE_ORANGE)
                   else (EFI_SUCCESS, Some BOOT_STATE_RED))
      | _ \<Rightarrow> (EFI_INVALID_PARAMETER, boot_state))"

definition get_avb_result ::
  "8 word list \<Rightarrow> AvbSlotVerifyData option \<Rightarrow> bool \<Rightarrow> AvbSlotVerifyResult \<Rightarrow> UINT8 option
     \<Rightarrow> EFI_STATUS \<times> UINT8 option" where
  "get_avb_result boot_magic slot_data allow_verification_error verify_result boot_state =
     (case (slot_data, boot_state) of
        (Some sd, Some bs) \<Rightarrow>
          if num_loaded_partitions sd < 1 then (EFI_LOAD_ERROR, boot_state)
          else
            let boot = hd (loaded_partitions sd) in
            if avb_memcmp boot_magic (header_magic boot) BOOT_MAGIC_SIZE \<noteq> 0
            then (EFI_NOT_FOUND, boot_state)
            else
              (case verify_result of
                 AVB_SLOT_VERIFY_RESULT_OK \<Rightarrow>
                   if allow_verification_error \<and> bs < BOOT_STATE_ORANGE
                   then (EFI_SUCCESS, Some BOOT_STATE_ORANGE)
                   else (EFI_SUCCESS, Some bs)
               | AVB_SLOT_VERIFY_RESULT_ERROR_VERIFICATION \<Rightarrow>
                   if allow_verification_error \<and> bs \<le> BOOT_STATE_ORANGE
                   then (EFI_SUCCESS, Some BOOT_STATE_ORANGE)
                   else (EFI_SUCCESS, Some BOOT_STATE_RED)
               | AVB_SLOT_VERIFY_RESULT_ERROR_ROLLBACK_INDEX \<Rightarrow>
                   if allow_verification_error \<and> bs \<le> BOOT_STATE_ORANGE
                   then (EFI_SUCCESS, Some BOOT_STATE_ORANGE)
                   else (EFI_SUCCESS, Some BOOT_STATE_RED)
               | AVB_SLOT_VERIFY_RESULT_ERROR_PUBLIC_KEY_REJECTED \<Rightarrow>
                   if allow_verification_error \<and> bs \<le> BOOT_STATE_ORANGE
                   then (EFI_SUCCESS, Some BOOT_STATE_ORANGE)
                   else (EFI_SUCCESS, Some BOOT_STATE_RED)
               | _ \<Rightarrow>
                   if allow_verification_error \<and> bs \<le> BOOT_STATE_ORANGE
                   then (EFI_SUCCESS, Some BOOT_STATE_ORANGE)
                   else (EFI_SUCCESS, Some BOOT_STATE_RED))
      | _ \<Rightarrow> (EFI_INVALID_PARAMETER, boot_state))"

subsection \<open>The loaders android_image_load_partition_avb and android_image_load_partition_avb_ab\<close>

text \<open>
  What the loaders read from their surroundings: whether \<open>avb_init\<close> yields an
  \<open>AvbOps\<close>, the build flag \<open>USE_SLOT\<close>, the slot controller (\<open>use_slot()\<close>,
  \<open>slot_get_active()\<close>, the suffix cached by \<open>slot_set_active_cached\<close>), the external
  verifier (\<open>avb_slot_verify\<close> and \<open>avb_ab_flow\<close>, as functions of the label, the slot
  suffix and the flags they are called with, returning the result code and
  \<open>*slot_data\<close>), and the result of
  \<open>gpt_get_partition_uuid(slot_label(SYSTEM_LABEL), ...)\<close> with the GUID as \<open>%g\<close>
  prints it.
\<close>

record avb_env =
  avb_ops_available :: bool
  USE_SLOT :: bool
  use_slot :: bool
  slot_active :: "string option"
  avb_slot_verify ::
    "string \<Rightarrow> string \<Rightarrow> AvbSlotVerifyFlag set \<Rightarrow> AvbSlotVerifyResult \<times> AvbSlotVerifyData option"
  avb_ab_flow ::
    "string \<Rightarrow> AvbSlotVerifyFlag set \<Rightarrow> AvbABFlowResult \<times> AvbSlotVerifyData option"
  gpt_system_partition_uuid :: "EFI_STATUS \<times> string"

text \<open>
  The loaders return \<open>ret\<close>, \<open>*bootimage_p\<close> (\<open>None\<close> for NULL), \<open>*boot_state\<close> and
  \<open>*slot_data\<close>. The argument \<open>slot_data\<close> is the value of \<open>*slot_data\<close> on entry,
  which is what the caller still sees when the verifier was never called.
\<close>

definition android_image_load_partition_avb ::
  "8 word list \<Rightarrow> avb_env \<Rightarrow> string \<Rightarrow> UINT8 \<Rightarrow> AvbSlotVerifyData option
     \<Rightarrow> EFI_STATUS \<times> 8 word list option \<times> UINT8 \<times> AvbSlotVerifyData option" where
  "android_image_load_partition_avb boot_magic env label boot_state slot_data =
     (let allow_verification_error = (boot_state \<noteq> BOOT_STATE_GREEN) in
      if \<not> avb_ops_available env
      then (EFI_OUT_OF_RESOURCES, None, BOOT_STATE_RED, slot_data)
      else
        let slot_suffix =
              (if use_slot env
               then (case slot_active env of Some suffix \<Rightarrow> suffix | None \<Rightarrow> [])
               else []);
            flags =
              (if allow_verification_error
               then insert AVB_SLOT_VERIFY_FLAGS_ALLOW_VERIFICATION_ERROR AVB_SLOT_VERIFY_FLAGS_NONE
               else AVB_SLOT_VERIFY_FLAGS_NONE);
            (verify_result, slot_data') = avb_slot_verify env label slot_suffix flags;
            (ret, boot_state') =
              get_avb_result boot_magic slot_data' allow_verification_error verify_result
                (Some boot_state)
        in if EFI_ERROR ret then (ret, None, BOOT_STATE_RED, slot_data')
           else
             (case (slot_data', boot_state') of
                (Some sd, Some bs) \<Rightarrow> (ret, Some (data (hd (loaded_partitions sd))), bs, slot_data')
              | _ \<Rightarrow> (ret, None, boot_state, slot_data')))"

text \<open>
  The A/B loader also returns the environment, whose cached active slot it sets. Without
  \<open>USE_SLOT\<close> it is the single-slot loader.
\<close>

definition android_image_load_partition_avb_ab ::
  "8 word list \<Rightarrow> avb_env \<Rightarrow> string \<Rightarrow> UINT8 \<Rightarrow> AvbSlotVerifyData option
     \<Rightarrow> (EFI_STATUS \<times> 8 word list option \<times> UINT8 \<times> AvbSlotVerifyData option) \<times> avb_env" where
  "android_image_load_partition_avb_ab boot_magic env label boot_state slot_data =
     (if \<not> USE_SLOT env
      then (android_image_load_partition_avb boot_magic env label boot_state slot_data, env)
      else
        let allow_verification_error = (boot_state \<noteq> BOOT_STATE_GREEN);
            flags =
              (if allow_verification_error
               then insert AVB_SLOT_VERIFY_FLAGS_ALLOW_VERIFICATION_ERROR AVB_SLOT_VERIFY_FLAGS_NONE
               else AVB_SLOT_VERIFY_FLAGS_NONE);
            (flow_result, slot_data') = avb_ab_flow env label flags;
            (ret, boot_state') =
              get_avb_flow_result boot_magic slot_data' allow_verification_error flow_result
                (Some boot_state)
        in if EFI_ERROR ret then ((ret, None, BOOT_STATE_RED, slot_data'), env)
           else
             (case (slot_data', boot_state') of
                (Some sd, Some bs) \<Rightarrow>
                  ((ret, Some (data (hd (loaded_partitions sd))), bs, slot_data'),
                   env\<lparr>slot_active := Some (ab_suffix sd)\<rparr>)
              | _ \<Rightarrow> ((ret, None, boot_state, slot_data'), env)))"

subsection \<open>avb_update_stored_rollback_indexes_for_slot\<close>

datatype AvbIOResult =
    AVB_IO_RESULT_OK
  | AVB_IO_RESULT_ERROR_OOM
  | AVB_IO_RESULT_ERROR_IO
  | AVB_IO_RESULT_ERROR_NO_SUCH_PARTITION
  | AVB_IO_RESULT_ERROR_RANGE_OUTSIDE_PARTITION
  | AVB_IO_RESULT_ERROR_NO_SUCH_VALUE

text \<open>
  The \<open>AvbOps\<close> the function works on, as far as rollback indexes go: the stored index of
  every location, the result code \<open>read_rollback_index\<close> and \<open>write_rollback_index\<close>
  give at each location (each location is read and written at most once per call, so a
  code per location covers every pattern of failures), and the list of the calls made to
  \<open>write_rollback_index\<close>, oldest first. A write that fails leaves the stored value as it
  was.
\<close>

record AvbOps =
  stored_rollback_index :: "nat \<Rightarrow> uint64_t"
  read_result :: "nat \<Rightarrow> AvbIOResult"
  write_result :: "nat \<Rightarrow> AvbIOResult"
  write_calls :: "(nat \<times> uint64_t) list"

definition read_rollback_index :: "AvbOps \<Rightarrow> nat \<Rightarrow> AvbIOResult \<times> uint64_t" where
  "read_rollback_index ops n = (read_result ops n, stored_rollback_index ops n)"

definition write_rollback_index :: "AvbOps \<Rightarrow> nat \<Rightarrow> uint64_t \<Rightarrow> AvbIOResult \<times> AvbOps" where
  "write_rollback_index ops n rollback_index =
     (write_result ops n,
      ops\<lparr>stored_rollback_index :=
            (if write_result ops n = AVB_IO_RESULT_OK
             then (stored_rollback_index ops)(n := rollback_index)
             else stored_rollback_index ops),
          write_calls := write_calls ops @ [(n, rollback_index)]\<rparr>)"

text \<open>
  The \<open>for\<close> loop from \<open>n\<close> on. \<open>max_locations\<close> is
  \<open>AVB_MAX_NUMBER_OF_ROLLBACK_INDEX_LOCATIONS\<close>, a constant of the verified-boot library
  that is not among the sources; it is a parameter.
\<close>

function rollback_loop ::
  "nat \<Rightarrow> nat \<Rightarrow> AvbOps \<Rightarrow> AvbSlotVerifyData \<Rightarrow> bool \<times> AvbOps" where
  "rollback_loop max_locations n ops slot_data =
     (if n < max_locations then
        let rollback_index = rollback_indexes slot_data n in
        if rollback_index > 0 then
          let (io_ret, current_stored_rollback_index) = read_rollback_index ops n in
          if io_ret \<noteq> AVB_IO_RESULT_OK then (False, ops)
          else if rollback_index > current_stored_rollback_index then
            let (io_ret, ops') = write_rollback_index ops n rollback_index in
            if io_ret \<noteq> AVB_IO_RESULT_OK then (False, ops')
            else rollback_loop max_locations (n + 1) ops' slot_data
          else rollback_loop max_locations (n + 1) ops slot_data
        else rollback_loop max_locations (n + 1) ops slot_data
      else (True, ops))"
  by pat_completeness auto
termination
  by (relation "measure (\<lambda>(max_locations, n, ops, slot_data). max_locations - n)") auto

definition avb_update_stored_rollback_indexes_for_slot ::
  "nat \<Rightarrow> AvbOps \<Rightarrow> AvbSlotVerifyData \<Rightarrow> bool \<times> AvbOps" where
  "avb_update_stored_rollback_indexes_for_slot max_locations ops slot_data =
     rollback_loop max_locations 0 ops slot_data"

subsection \<open>The command-line fragments\<close>

definition AVB_ROOTFS_PREFIX :: string where
  "AVB_ROOTFS_PREFIX = ''skip_initramfs rootwait ro init=/init''"

definition DISABLE_AVB_ROOTFS_PREFIX :: string where
  "DISABLE_AVB_ROOTFS_PREFIX = '' root=''"

text \<open>
  Modelled from the spec: \<open>prepend_command_line\<close> is defined in a file that is not among
  the sources. The spec (section 4.8) has the command line assembled by prepending
  fragments; the printed fragment goes in front of the command line there is, separated
  by a space, and becomes the command line when there was none (\<open>*cmdline16\<close> NULL).
  The argument \<open>fragment\<close> is the format string with its arguments printed in.
\<close>

definition prepend_command_line :: "string option \<Rightarrow> string \<Rightarrow> EFI_STATUS \<times> string option" where
  "prepend_command_line cmdline16 fragment =
     (case cmdline16 of
        None \<Rightarrow> (EFI_SUCCESS, Some fragment)
      | Some old \<Rightarrow> (EFI_SUCCESS, Some (fragment @ '' '' @ old)))"

text \<open>
  \<open>avb_strstr\<close> of the verified-boot library: the first occurrence of \<open>needle\<close> in
  \<open>haystack\<close> (the rest of the haystack from there on), or \<open>None\<close> for NULL.
\<close>

fun avb_strstr :: "string \<Rightarrow> string \<Rightarrow> string option" where
  "avb_strstr [] needle = None"
| "avb_strstr (c # cs) needle =
     (if take (length needle) (c # cs) = needle \<and> needle \<noteq> [] then Some (c # cs)
      else avb_strstr cs needle)"

definition avb_prepend_command_line_rootfs ::
  "avb_env \<Rightarrow> string option \<Rightarrow> boot_target \<Rightarrow> EFI_STATUS \<times> string option" where
  "avb_prepend_command_line_rootfs env cmdline16 boot_target =
     (if boot_target = RECOVERY \<or> boot_target = MEMORY then (EFI_SUCCESS, cmdline16)
      else if use_slot env then
        let (ret, cmdline16') = prepend_command_line cmdline16 AVB_ROOTFS_PREFIX in
        if EFI_ERROR ret then (ret, cmdline16') else (ret, cmdline16')
      else (EFI_SUCCESS, cmdline16))"

definition prepend_slot_command_line ::
  "avb_env \<Rightarrow> string option \<Rightarrow> boot_target \<Rightarrow> AvbSlotVerifyData option
     \<Rightarrow> EFI_STATUS \<times> string option" where
  "prepend_slot_command_line env cmdline16 boot_target vb_data =
     (let cmdline1 = snd (avb_prepend_command_line_rootfs env cmdline16 boot_target) in
      if use_slot env then
        let (ret, cmdline2) =
              (case slot_active env of
                 Some suffix \<Rightarrow>
                   prepend_command_line cmdline1 (''androidboot.slot_suffix='' @ suffix)
               | None \<Rightarrow> (EFI_SUCCESS, cmdline1))
        in if EFI_ERROR ret then (ret, cmdline2)
           else
             (case vb_data of
                Some vb \<Rightarrow>
                  (case cmdline vb of
                     Some verified \<Rightarrow>
                       if avb_strstr verified ''root='' = None then
                         let (ret, system_uuid) = gpt_system_partition_uuid env in
                         if EFI_ERROR ret then (ret, cmdline2)
                         else
                           prepend_command_line cmdline2
                             (DISABLE_AVB_ROOTFS_PREFIX @ ''PARTUUID='' @ system_uuid)
                       else (ret, cmdline2)
                   | None \<Rightarrow> (ret, cmdline2))
              | None \<Rightarrow> (ret, cmdline2))
      else (EFI_SUCCESS, cmdline1))"

section \<open>Boot-target selection (src/kernelflinger.c)\<close>

subsection \<open>Constants and C strings\<close>

definition EFI_RESET_WAIT_MS :: nat where "EFI_RESET_WAIT_MS = 200"
definition DETECT_KEY_STALL_TIME_MS :: nat where "DETECT_KEY_STALL_TIME_MS = 1"
definition FASTBOOT_HOLD_DELAY :: nat where "FASTBOOT_HOLD_DELAY = 2 * 1000"
definition WATCHDOG_DELAY :: nat where "WATCHDOG_DELAY = 10 * 60"

definition NUL :: char where "NUL = CHR 0x00"
definition BACKSLASH :: char where "BACKSLASH = CHR 0x5C"

definition FASTBOOT_SENTINEL :: string where
  "FASTBOOT_SENTINEL = BACKSLASH # ''force_fastboot''"

text \<open>
  A character array is a list of characters; the C string in it ends before the first
  NUL. \<open>char_at0\<close> is \<open>s[0]\<close>, which for a string that ends here is its terminator.
\<close>

definition char_at0 :: "string \<Rightarrow> char" where
  "char_at0 s = (case s of [] \<Rightarrow> NUL | c # _ \<Rightarrow> c)"

definition stra_to_str :: "string \<Rightarrow> string" where
  "stra_to_str s = takeWhile (\<lambda>c. c \<noteq> NUL) s"

text \<open>
  \<open>strncmpa\<close> of gnu-efi: compare at most \<open>len\<close> characters, stopping at the end of the
  first string; the result is the difference of the characters where it stopped.
\<close>

fun strncmpa :: "string \<Rightarrow> string \<Rightarrow> nat \<Rightarrow> int" where
  "strncmpa s1 s2 0 = 0"
| "strncmpa s1 s2 (Suc len) =
     (if char_at0 s1 = NUL \<or> char_at0 s1 \<noteq> char_at0 s2
      then int (of_char (char_at0 s1)) - int (of_char (char_at0 s2))
      else strncmpa (tl s1) (tl s2) len)"

text \<open>
  \<open>StrCmp\<close> of gnu-efi on two strings; its callers only test the result against zero, so
  the model returns 0 for equal strings and 1 otherwise.
\<close>

definition StrCmp :: "string \<Rightarrow> string \<Rightarrow> int" where
  "StrCmp s1 s2 = (if s1 = s2 then 0 else 1)"

subsection \<open>The environment of the selector\<close>

text \<open>
  Enumerations declared in headers that are not among the sources. The constructors
  are the values the source names; every other value of the C type is the last
  constructor, with its number.
\<close>

datatype ui_events = EV_DOWN | EV_OTHER nat

definition MAGIC_KEY :: ui_events where "MAGIC_KEY = EV_DOWN"

datatype reset_sources =
    RESET_KERNEL_WATCHDOG
  | RESET_SECURITY_WATCHDOG
  | RESET_PMIC_WATCHDOG
  | RESET_EC_WATCHDOG
  | RESET_PLATFORM_SPECIFIC
  | RESET_SOURCE_OTHER nat

datatype wake_sources =
    WAKE_BATTERY_INSERTED
  | WAKE_USB_CHARGER_INSERTED
  | WAKE_ACDC_CHARGER_INSERTED
  | WAKE_SOURCE_OTHER nat

datatype ux_error_code =
    NO_ERROR_CODE
  | CRASH_EVENT_CODE
  | NOT_BOOTABLE_CODE
  | SECURE_BOOT_CODE
  | DEVICE_UNLOCKED_CODE
  | BOOTIMAGE_UNTRUSTED_CODE
  | BAD_RECOVERY_CODE
  | RED_STATE_CODE

text \<open>
  \<open>struct bootloader_message\<close>: the character arrays \<open>command[32]\<close>, \<open>status[32]\<close>,
  \<open>recovery[768]\<close> and \<open>stage[32]\<close>.
\<close>

record bootloader_message =
  command :: string
  status :: string
  recovery :: string
  stage :: string

text \<open>
  Everything \<open>choose_boot_target\<close> and \<open>validate_bootimage\<close> read or change, as one
  state. Build flags: \<open>USER_build\<close> (\<open>#ifdef USER\<close>) and \<open>USERDEBUG_build\<close>. External
  functions are fields holding what they return: a status with a value where the C
  function has an out parameter. Time is in seconds as \<open>efi_time_to_ctime\<close> gives it.
  \<open>ReadKeyStroke_result k\<close> is what the \<open>k\<close>-th call of \<open>ReadKeyStroke\<close> returns (status
  and scan code), \<open>key_reads\<close> counts the calls made, \<open>stalled_us\<close> adds up the
  \<open>Stall\<close> calls. \<open>misc_bcb\<close> is the BCB on the misc partition, \<open>write_bcb_calls\<close> the
  blocks \<open>write_bcb\<close> was called with. \<open>loader_entry_one_shot\<close> is the firmware variable
  LoaderEntryOneShot (\<open>None\<close> when absent). \<open>debug_log\<close> holds the "Bootlogic: Check"
  lines \<open>choose_boot_target\<close> prints before each check, oldest first.
\<close>

record boot_env =
  USER_build :: bool
  USERDEBUG_build :: bool
  get_argv :: "EFI_STATUS \<times> string list"
  unittest_main_calls :: "string option list"
  file_exists :: "string \<Rightarrow> bool"
  magic_key_timeout_var :: "EFI_STATUS \<times> nat"
  ReadKeyStroke_result :: "nat \<Rightarrow> EFI_STATUS \<times> nat"
  key_reads :: nat
  stalled_us :: nat
  ui_keycode_to_event :: "nat \<Rightarrow> ui_events"
  ui_enforce_key_held :: "nat \<Rightarrow> ui_events \<Rightarrow> bool"
  crash_event_menu :: bool
  get_watchdog_status_ret :: EFI_STATUS
  watchdog_counter :: UINT8
  watchdog_time_ref :: nat
  reset_watchdog_status_ret :: EFI_STATUS
  set_watchdog_time_reference_ret :: EFI_STATUS
  set_watchdog_counter_ret :: EFI_STATUS
  watchdog_counter_max :: UINT8
  reset_source :: reset_sources
  reboot_reason :: "string option"
  GetTime_result :: "EFI_STATUS \<times> nat"
  ux_prompt_user_for_boot_target :: "ux_error_code \<Rightarrow> boot_target"
  off_mode_charge :: bool
  wake_source :: wake_sources
  battery_below_boot_OS_threshold :: bool
  charger_plugged_in :: bool
  ux_display_low_battery_calls :: "nat list"
  read_bcb_ret :: EFI_STATUS
  misc_bcb :: bootloader_message
  write_bcb_ret :: EFI_STATUS
  write_bcb_calls :: "bootloader_message list"
  name_to_boot_target :: "string \<Rightarrow> boot_target"
  loader_entry_one_shot :: "string option"
  slot_set_verity_corrupted_ret :: EFI_STATUS
  verity_corrupted :: bool
  debug_log :: "string list"
  verify_android_boot_image :: "8 word list \<Rightarrow> UINT8 \<times> string"
  recovery_in_boot_partition :: bool
  efi_secure_boot_enabled :: bool
  device_provisioning :: bool
  device_unlocked :: bool

definition debug :: "string \<Rightarrow> boot_env \<Rightarrow> boot_env" where
  "debug msg env = env\<lparr>debug_log := debug_log env @ [msg]\<rparr>"

subsection \<open>check_fastboot_sentinel\<close>

definition check_fastboot_sentinel :: "boot_env \<Rightarrow> boot_target" where
  "check_fastboot_sentinel env =
     (if file_exists env FASTBOOT_SENTINEL then FASTBOOT else NORMAL_BOOT)"

subsection \<open>check_magic_key\<close>

text \<open>
  One call of \<open>ReadKeyStroke\<close>: the status, the key (the one passed in when the call
  fails and leaves \<open>key\<close> alone) and the state with the call counted.
\<close>

definition ReadKeyStroke :: "boot_env \<Rightarrow> nat \<Rightarrow> EFI_STATUS \<times> nat \<times> boot_env" where
  "ReadKeyStroke env key =
     (let (ret, scan_code) = ReadKeyStroke_result env (key_reads env) in
      (ret, (if ret = EFI_SUCCESS then scan_code else key),
       env\<lparr>key_reads := key_reads env + 1\<rparr>))"

definition Stall :: "nat \<Rightarrow> boot_env \<Rightarrow> boot_env" where
  "Stall us env = env\<lparr>stalled_us := stalled_us env + us\<rparr>"

text \<open>The polling loop of \<open>check_magic_key\<close> from \<open>i\<close> on.\<close>

function magic_key_loop ::
  "nat \<Rightarrow> nat \<Rightarrow> EFI_STATUS \<Rightarrow> nat \<Rightarrow> boot_env \<Rightarrow> EFI_STATUS \<times> nat \<times> boot_env" where
  "magic_key_loop wait_ms i ret key env =
     (if i \<le> wait_ms then
        let (ret', key', env') = ReadKeyStroke env key in
        if ret' = EFI_SUCCESS \<or> i = wait_ms then (ret', key', env')
        else magic_key_loop wait_ms (i + DETECT_KEY_STALL_TIME_MS) ret' key'
               (Stall (DETECT_KEY_STALL_TIME_MS * 1000) env')
      else (ret, key, env))"
  by pat_completeness auto
termination
  by (relation "measure (\<lambda>(wait_ms, i, ret, key, env). Suc wait_ms - i)")
     (auto simp: DETECT_KEY_STALL_TIME_MS_def)

definition check_magic_key :: "boot_env \<Rightarrow> boot_target \<times> boot_env" where
  "check_magic_key env =
     (let (var_ret, var_value) = magic_key_timeout_var env;
          wait_ms =
            (if EFI_ERROR var_ret then EFI_RESET_WAIT_MS
             else if var_value > 1000 then EFI_RESET_WAIT_MS
             else var_value);
          (ret, key, env') = magic_key_loop wait_ms 0 EFI_NOT_READY 0 env
      in if EFI_ERROR ret then (NORMAL_BOOT, env')
         else if ui_keycode_to_event env' key \<noteq> MAGIC_KEY then (NORMAL_BOOT, env')
         else if ui_enforce_key_held env' FASTBOOT_HOLD_DELAY MAGIC_KEY then (FASTBOOT, env')
         else (NORMAL_BOOT, env'))"

subsection \<open>check_bcb\<close>

definition read_bcb :: "boot_env \<Rightarrow> EFI_STATUS \<times> bootloader_message" where
  "read_bcb env = (read_bcb_ret env, misc_bcb env)"

text \<open>A \<open>write_bcb\<close> that fails leaves the misc partition as it was.\<close>

definition write_bcb :: "boot_env \<Rightarrow> bootloader_message \<Rightarrow> EFI_STATUS \<times> boot_env" where
  "write_bcb env bcb =
     (write_bcb_ret env,
      env\<lparr>misc_bcb := (if EFI_ERROR (write_bcb_ret env) then misc_bcb env else bcb),
          write_bcb_calls := write_bcb_calls env @ [bcb]\<rparr>)"

text \<open>
  The result is the target, \<open>*target_path\<close> and \<open>*oneshot\<close>. \<open>stra_to_str\<close> reads the
  command from the offset up to its NUL; if the 32 characters hold none, it stops at
  \<open>status[0]\<close>, which has just been cleared.
\<close>

definition check_bcb :: "boot_env \<Rightarrow> (boot_target \<times> string option \<times> bool) \<times> boot_env" where
  "check_bcb env =
     (let (ret, bcb) = read_bcb env in
      if EFI_ERROR ret then ((NORMAL_BOOT, None, False), env)
      else
        let dirty = (char_at0 (status bcb) \<noteq> NUL);
            bcb1 = bcb\<lparr>status := (status bcb)[0 := NUL]\<rparr>;
            bcb_cmd = command bcb1;
            (target, bcb2, dirty2, oneshot) =
              (if strncmpa bcb_cmd ''boot-'' 5 = 0
               then (Some (stra_to_str (drop 5 bcb_cmd)), bcb1, dirty, False)
               else if strncmpa bcb_cmd ''bootonce-'' 9 = 0
               then (Some (stra_to_str (drop 9 bcb_cmd)),
                     bcb1\<lparr>command := bcb_cmd[0 := NUL]\<rparr>, True, True)
               else (None, bcb1, dirty, False));
            env1 = (if dirty2 then snd (write_bcb env bcb2) else env)
        in case target of
             None \<Rightarrow> ((NORMAL_BOOT, None, oneshot), env1)
           | Some target \<Rightarrow>
               if char_at0 target = BACKSLASH then
                 if \<not> file_exists env1 target then ((NORMAL_BOOT, None, oneshot), env1)
                 else
                   let len = length target in
                   if len > 4 then
                     if StrCmp (drop (len - 4) target) ''.efi'' = 0
                        \<or> StrCmp (drop (len - 4) target) ''.EFI'' = 0
                     then ((ESP_EFI_BINARY, Some target, oneshot), env1)
                     else ((ESP_BOOTIMAGE, Some target, oneshot), env1)
                   else ((NORMAL_BOOT, None, oneshot), env1)
               else
                 let t = name_to_boot_target env1 target in
                 if t \<noteq> UNKNOWN_TARGET then ((t, None, oneshot), env1)
                 else ((NORMAL_BOOT, None, oneshot), env1))"

subsection \<open>check_loader_entry_one_shot\<close>

definition slot_set_verity_corrupted :: "boot_env \<Rightarrow> bool \<Rightarrow> EFI_STATUS \<times> boot_env" where
  "slot_set_verity_corrupted env eio =
     (slot_set_verity_corrupted_ret env,
      (if EFI_ERROR (slot_set_verity_corrupted_ret env) then env
       else env\<lparr>verity_corrupted := eio\<rparr>))"

text \<open>The variable is read, then deleted whatever it held.\<close>

definition check_loader_entry_one_shot :: "boot_env \<Rightarrow> boot_target \<times> boot_env" where
  "check_loader_entry_one_shot env =
     (let target = loader_entry_one_shot env;
          env1 = env\<lparr>loader_entry_one_shot := None\<rparr>
      in case target of
           None \<Rightarrow> (NORMAL_BOOT, env1)
         | Some target \<Rightarrow>
             let bt = name_to_boot_target env1 target in
             if bt = UNKNOWN_TARGET then
               if StrCmp target ''dm-verity device corrupted'' = 0
               then (NORMAL_BOOT, snd (slot_set_verity_corrupted env1 True))
               else (NORMAL_BOOT, env1)
             else if bt = CHARGER \<and> \<not> off_mode_charge env1 then (POWER_OFF, env1)
             else (bt, env1))"

subsection \<open>check_watchdog\<close>

definition is_reboot_reason :: "boot_env \<Rightarrow> string \<Rightarrow> bool" where
  "is_reboot_reason env reason = (reboot_reason env = Some reason)"

definition WATCHDOG_RESET_SOURCES :: "reset_sources list" where
  "WATCHDOG_RESET_SOURCES =
     [RESET_KERNEL_WATCHDOG, RESET_SECURITY_WATCHDOG, RESET_PMIC_WATCHDOG, RESET_EC_WATCHDOG]"

definition reset_is_due_to_watchdog_or_panic :: "boot_env \<Rightarrow> bool" where
  "reset_is_due_to_watchdog_or_panic env =
     (if reset_source env \<in> set WATCHDOG_RESET_SOURCES then True
      else is_reboot_reason env ''kernel_panic'' \<or> is_reboot_reason env ''watchdog'')"

text \<open>
  Modelled from the spec: \<open>reset_watchdog_status\<close>, \<open>set_watchdog_time_reference\<close> and
  \<open>set_watchdog_counter\<close> are defined in a file that is not among the sources. By the
  spec (section 4.7) the persistent state is a counter and a time reference, and
  resetting it clears both; a call that fails changes nothing.
\<close>

definition reset_watchdog_status :: "boot_env \<Rightarrow> EFI_STATUS \<times> boot_env" where
  "reset_watchdog_status env =
     (reset_watchdog_status_ret env,
      (if EFI_ERROR (reset_watchdog_status_ret env) then env
       else env\<lparr>watchdog_counter := 0, watchdog_time_ref := 0\<rparr>))"

definition set_watchdog_time_reference :: "boot_env \<Rightarrow> nat \<Rightarrow> EFI_STATUS \<times> boot_env" where
  "set_watchdog_time_reference env now =
     (set_watchdog_time_reference_ret env,
      (if EFI_ERROR (set_watchdog_time_reference_ret env) then env
       else env\<lparr>watchdog_time_ref := now\<rparr>))"

definition set_watchdog_counter :: "boot_env \<Rightarrow> UINT8 \<Rightarrow> EFI_STATUS \<times> boot_env" where
  "set_watchdog_counter env counter =
     (set_watchdog_counter_ret env,
      (if EFI_ERROR (set_watchdog_counter_ret env) then env
       else env\<lparr>watchdog_counter := counter\<rparr>))"

definition check_watchdog :: "boot_env \<Rightarrow> boot_target \<times> boot_env" where
  "check_watchdog env =
     (if \<not> crash_event_menu env then (NORMAL_BOOT, env)
      else
        let ret = get_watchdog_status_ret env;
            counter = watchdog_counter env;
            time_ref = watchdog_time_ref env
        in if EFI_ERROR ret then (NORMAL_BOOT, env)
           else if \<not> reset_is_due_to_watchdog_or_panic env then
             (if counter \<noteq> 0 then (NORMAL_BOOT, snd (reset_watchdog_status env))
              else (NORMAL_BOOT, env))
           else if USER_build env \<and> is_reboot_reason env ''shutdown''
           then (POWER_OFF, env\<lparr>reboot_reason := None\<rparr>)
           else
             let (ret, now) = GetTime_result env in
             if EFI_ERROR ret then (NORMAL_BOOT, env)
             else
               let counter1 =
                     (if counter > 0 \<and> (now < time_ref \<or> now - time_ref > WATCHDOG_DELAY) then 0
                      else counter);
                   (ret, env1) =
                     (if counter1 = 0 then set_watchdog_time_reference env now
                      else (EFI_SUCCESS, env))
               in if EFI_ERROR ret then (NORMAL_BOOT, env1)
                  else
                    let counter2 = counter1 + 1 in
                    if counter2 \<le> watchdog_counter_max env1
                    then (NORMAL_BOOT, snd (set_watchdog_counter env1 counter2))
                    else
                      let env2 = snd (reset_watchdog_status env1) in
                      (ux_prompt_user_for_boot_target env2 CRASH_EVENT_CODE, env2))"

subsection \<open>check_command_line\<close>

text \<open>
  The \<open>for\<close> loop over the arguments from \<open>pos\<close> on, with the target \<open>bt\<close> found so
  far. \<open>-U\<close> is compiled in unless the build is a USER build.
\<close>

function command_line_loop ::
  "string list \<Rightarrow> nat \<Rightarrow> boot_target \<Rightarrow> boot_env \<Rightarrow> boot_target \<times> boot_env" where
  "command_line_loop argv pos bt env =
     (if pos < length argv then
        if StrCmp (argv ! pos) ''-f'' = 0 then command_line_loop argv (pos + 1) FASTBOOT env
        else if \<not> USER_build env \<and> StrCmp (argv ! pos) ''-U'' = 0 then
          (EXIT_SHELL,
           env\<lparr>unittest_main_calls := unittest_main_calls env @
                 [if pos + 1 \<ge> length argv then None else Some (argv ! (pos + 1))]\<rparr>)
        else if StrCmp (argv ! pos) ''-a'' = 0 then
          if pos + 1 \<ge> length argv then (bt, env)
          else command_line_loop argv (pos + 1 + 1) FASTBOOT env
        else if pos = 0 then command_line_loop argv (pos + 1) bt env
        else (bt, env)
      else (bt, env))"
  by pat_completeness auto
termination
  by (relation "measure (\<lambda>(argv, pos, bt, env). length argv - pos)") auto

definition check_command_line :: "boot_env \<Rightarrow> boot_target \<times> boot_env" where
  "check_command_line env =
     (let (ret, argv) = get_argv env in
      if EFI_ERROR ret then (NORMAL_BOOT, env)
      else command_line_loop argv 0 NORMAL_BOOT env)"

subsection \<open>The power checks\<close>

definition check_battery_inserted :: "boot_env \<Rightarrow> boot_target" where
  "check_battery_inserted env =
     (if \<not> off_mode_charge env then NORMAL_BOOT
      else if wake_source env = WAKE_BATTERY_INSERTED then POWER_OFF
      else NORMAL_BOOT)"

definition check_charge_mode :: "boot_env \<Rightarrow> boot_target" where
  "check_charge_mode env =
     (if \<not> off_mode_charge env then NORMAL_BOOT
      else if wake_source env = WAKE_USB_CHARGER_INSERTED
              \<or> wake_source env = WAKE_ACDC_CHARGER_INSERTED then CHARGER
      else NORMAL_BOOT)"

definition check_battery :: "boot_env \<Rightarrow> boot_target" where
  "check_battery env =
     (if \<not> off_mode_charge env then NORMAL_BOOT
      else if battery_below_boot_OS_threshold env then
        (if charger_plugged_in env then CHARGER else POWER_OFF)
      else NORMAL_BOOT)"

definition ux_display_low_battery :: "nat \<Rightarrow> boot_env \<Rightarrow> boot_env" where
  "ux_display_low_battery seconds env =
     env\<lparr>ux_display_low_battery_calls := ux_display_low_battery_calls env @ [seconds]\<rparr>"

subsection \<open>choose_boot_target\<close>

text \<open>
  The result is the target, \<open>*target_path\<close> and \<open>*oneshot\<close>, with the state the checks
  left. Each \<open>goto out\<close> is the branch that returns at once.
\<close>

definition choose_boot_target ::
  "boot_env \<Rightarrow> (boot_target \<times> string option \<times> bool) \<times> boot_env" where
  "choose_boot_target env0 =
     (let target_path = None; oneshot = True;
          (ret, env1) = check_command_line (debug ''Bootlogic: Check osloader command line...'' env0)
      in if ret \<noteq> NORMAL_BOOT then ((ret, target_path, oneshot), env1)
      else
        let env2 = debug ''Bootlogic: Check fastboot sentinel...'' env1;
            ret = check_fastboot_sentinel env2
        in if ret \<noteq> NORMAL_BOOT then ((ret, target_path, oneshot), env2)
        else
          let (ret, env3) = check_magic_key (debug ''Bootlogic: Check magic key...'' env2)
          in if ret \<noteq> NORMAL_BOOT then ((ret, target_path, oneshot), env3)
          else
            let (ret, env4) = check_watchdog (debug ''Bootlogic: Check watchdog...'' env3)
            in if ret \<noteq> NORMAL_BOOT then ((ret, target_path, oneshot), env4)
            else
              let env5 = debug ''Bootlogic: Check battery insertion...'' env4;
                  ret = check_battery_inserted env5
              in if ret \<noteq> NORMAL_BOOT then ((ret, target_path, oneshot), env5)
              else
                let ((ret, target_path, oneshot), env6) =
                      check_bcb (debug ''Bootlogic: Check BCB...'' env5)
                in if ret \<noteq> NORMAL_BOOT then ((ret, target_path, oneshot), env6)
                else
                  let (ret, env7) =
                        check_loader_entry_one_shot
                          (debug ''Bootlogic: Check reboot target...'' env6)
                  in if ret \<noteq> DNX \<and> ret \<noteq> NORMAL_BOOT
                     then ((ret, target_path, oneshot), env7)
                  else
                    let env8 = debug ''Bootlogic: Check battery level...'' env7;
                        ret = check_battery env8;
                        env9 = (if ret = POWER_OFF then ux_display_low_battery 3 env8 else env8)
                    in if ret \<noteq> NORMAL_BOOT then ((ret, target_path, oneshot), env9)
                    else
                      let env10 = debug ''Bootlogic: Check charger insertion...'' env9;
                          ret = check_charge_mode env10
                      in ((ret, target_path, oneshot), env10))"

subsection \<open>validate_bootimage\<close>

text \<open>
  \<open>verify_android_boot_image\<close> is external: it returns the boot state and writes the
  target name found in the image signature. An expected name is \<open>None\<close> for NULL.
  The result is the returned state.
\<close>

text \<open>\<open>!expected || StrCmp(expected, target)\<close>, for either expected name.\<close>

definition unexpected :: "string option \<Rightarrow> string \<Rightarrow> bool" where
  "unexpected expected target =
     (case expected of None \<Rightarrow> True | Some e \<Rightarrow> StrCmp e target \<noteq> 0)"

definition validate_bootimage :: "boot_env \<Rightarrow> boot_target \<Rightarrow> 8 word list \<Rightarrow> UINT8" where
  "validate_bootimage env boot_target bootimage =
     (let (boot_state, target) = verify_android_boot_image env bootimage in
      if boot_state = BOOT_STATE_RED then boot_state
      else
        let (expected, expected2) =
              (case boot_target of
                 NORMAL_BOOT \<Rightarrow> (Some ''/boot'', Some ''/recovery'')
               | MEMORY \<Rightarrow> (Some ''/boot'', Some ''/recovery'')
               | CHARGER \<Rightarrow> (Some ''/boot'', None)
               | RECOVERY \<Rightarrow>
                   (if recovery_in_boot_partition env then (Some ''/boot'', None)
                    else (Some ''/recovery'', None))
               | ESP_BOOTIMAGE \<Rightarrow> (Some ''/boot'', None)
               | _ \<Rightarrow> (None, None))
        in if unexpected expected target \<and> unexpected expected2 target
           then BOOT_STATE_RED
           else boot_state)"

subsection \<open>The trust state in efi_main\<close>

text \<open>
  The two places where \<open>efi_main\<close> sets \<open>boot_state\<close>. First the device state (after
  the target is chosen): the state and \<open>lock_prompted\<close> with which \<open>efi_main\<close> goes on.
  The \<open>boot_error\<close> and \<open>enter_fastboot_mode\<close> calls there get \<open>boot_state\<close> by value
  and may not return; they are not part of this function.
\<close>

definition efi_main_device_state :: "boot_env \<Rightarrow> UINT8 \<times> bool" where
  "efi_main_device_state env =
     (let boot_state = BOOT_STATE_GREEN; lock_prompted = False in
      if USERDEBUG_build env then
        if \<not> efi_secure_boot_enabled env \<and> \<not> device_provisioning env
        then (BOOT_STATE_ORANGE, True)
        else if device_unlocked env then (BOOT_STATE_ORANGE, lock_prompted)
        else (boot_state, lock_prompted)
      else (BOOT_STATE_RED, lock_prompted))"

text \<open>
  Then the load/validate stage: \<open>ret\<close> and \<open>bootimage\<close> are what \<open>load_boot_image\<close>
  returned, \<open>boot_state\<close> the state on entry; the result is the state after the stage.
\<close>

definition efi_main_load_validate ::
  "boot_env \<Rightarrow> boot_target \<Rightarrow> UINT8 \<Rightarrow> EFI_STATUS \<Rightarrow> 8 word list \<Rightarrow> UINT8" where
  "efi_main_load_validate env boot_target boot_state ret bootimage =
     (if EFI_ERROR ret then BOOT_STATE_RED
      else
        let new_boot_state = validate_bootimage env boot_target bootimage in
        if boot_state \<noteq> BOOT_STATE_ORANGE then new_boot_state else boot_state)"


section \<open>The statements of the specification\<close>

subsection \<open>The adapter table\<close>

text \<open>
  The table of section 4.3 of the specification, read by its rows: a verifier outcome
  that is OK keeps the state, or raises it to ORANGE when errors are allowed and the
  state is below ORANGE; every other outcome gives ORANGE when errors are allowed and
  the state is at most ORANGE, and RED otherwise.
\<close>

definition adapter_table :: "bool \<Rightarrow> bool \<Rightarrow> UINT8 \<Rightarrow> UINT8" where
  "adapter_table outcome_ok allow_error state =
     (if outcome_ok
      then (if allow_error \<and> state < BOOT_STATE_ORANGE then BOOT_STATE_ORANGE else state)
      else (if allow_error \<and> state \<le> BOOT_STATE_ORANGE then BOOT_STATE_ORANGE
            else BOOT_STATE_RED))"

text \<open>
  The slot suffix and the flags with which a loader that entered with \<open>boot_state\<close>
  calls the verifier.
\<close>

definition slot_suffix_passed :: "avb_env \<Rightarrow> string" where
  "slot_suffix_passed env =
     (if use_slot env then (case slot_active env of Some suffix \<Rightarrow> suffix | None \<Rightarrow> [])
      else [])"

definition flags_passed :: "UINT8 \<Rightarrow> AvbSlotVerifyFlag set" where
  "flags_passed boot_state =
     (if boot_state \<noteq> BOOT_STATE_GREEN then {AVB_SLOT_VERIFY_FLAGS_ALLOW_VERIFICATION_ERROR}
      else {})"

subsection \<open>Rollback indexes\<close>

text \<open>
  A call \<open>w\<close> of \<open>write_rollback_index\<close> is justified when its location lies in
  \<open>[n, max_locations)\<close>, the slot asserts a non-zero index there that is greater than
  the stored one, and that index is what is written.
\<close>

definition justified_write ::
  "nat \<Rightarrow> nat \<Rightarrow> AvbOps \<Rightarrow> AvbSlotVerifyData \<Rightarrow> nat \<times> uint64_t \<Rightarrow> bool" where
  "justified_write n max_locations ops slot_data w =
     (n \<le> fst w \<and> fst w < max_locations \<and> rollback_indexes slot_data (fst w) \<noteq> 0 \<and>
      stored_rollback_index ops (fst w) < rollback_indexes slot_data (fst w) \<and>
      snd w = rollback_indexes slot_data (fst w))"

text \<open>
  The update fails at location \<open>k\<close>: the slot asserts an index there and either the
  read fails, or the index is greater than the stored one and the write fails.
\<close>

definition fails_at :: "nat \<Rightarrow> AvbOps \<Rightarrow> AvbSlotVerifyData \<Rightarrow> bool" where
  "fails_at k ops slot_data =
     (rollback_indexes slot_data k \<noteq> 0 \<and>
      (read_result ops k \<noteq> AVB_IO_RESULT_OK \<or>
       stored_rollback_index ops k < rollback_indexes slot_data k \<and>
       write_result ops k \<noteq> AVB_IO_RESULT_OK))"

subsection \<open>The priority order of the selector\<close>

text \<open>
  Section 4.1 of the specification: the checks are evaluated in order and the first one
  with a result other than \<open>NORMAL_BOOT\<close> wins. A check is announced in the log, run
  on the state its predecessors left, and its result returned unless it is
  \<open>NORMAL_BOOT\<close>.
\<close>

type_synonym check = "boot_env \<Rightarrow> boot_target \<times> boot_env"

fun first_match :: "(string \<times> check) list \<Rightarrow> boot_env \<Rightarrow> boot_target \<times> boot_env" where
  "first_match [] env = (NORMAL_BOOT, env)"
| "first_match ((msg, chk) # rest) env =
     (let (t, env') = chk (debug msg env) in
      if t \<noteq> NORMAL_BOOT then (t, env') else first_match rest env')"

text \<open>The battery-level check with the low-battery screen it shows before powering off.\<close>

definition battery_level_check :: check where
  "battery_level_check env =
     (check_battery env,
      (if check_battery env = POWER_OFF then ux_display_low_battery 3 env else env))"

definition checks_before_one_shot :: "(string \<times> check) list" where
  "checks_before_one_shot =
     [(''Bootlogic: Check osloader command line...'', check_command_line),
      (''Bootlogic: Check fastboot sentinel...'', \<lambda>env. (check_fastboot_sentinel env, env)),
      (''Bootlogic: Check magic key...'', check_magic_key),
      (''Bootlogic: Check watchdog...'', check_watchdog),
      (''Bootlogic: Check battery insertion...'', \<lambda>env. (check_battery_inserted env, env)),
      (''Bootlogic: Check BCB...'', \<lambda>env. (fst (fst (check_bcb env)), snd (check_bcb env)))]"

definition checks_after_one_shot :: "(string \<times> check) list" where
  "checks_after_one_shot =
     [(''Bootlogic: Check battery level...'', battery_level_check),
      (''Bootlogic: Check charger insertion...'', \<lambda>env. (check_charge_mode env, env))]"

text \<open>The order as the specification states it: every check counts with its own result.\<close>

definition priority_order_as_stated :: "(string \<times> check) list" where
  "priority_order_as_stated =
     checks_before_one_shot
     @ [(''Bootlogic: Check reboot target...'', check_loader_entry_one_shot)]
     @ checks_after_one_shot"

text \<open>The same order with a \<open>DNX\<close> from LoaderEntryOneShot counted as no match.\<close>

definition ignoring_DNX :: "check \<Rightarrow> check" where
  "ignoring_DNX chk env =
     (let (t, env') = chk env in ((if t = DNX then NORMAL_BOOT else t), env'))"

definition priority_order :: "(string \<times> check) list" where
  "priority_order =
     checks_before_one_shot
     @ [(''Bootlogic: Check reboot target...'', ignoring_DNX check_loader_entry_one_shot)]
     @ checks_after_one_shot"


section \<open>Example inputs\<close>

subsection \<open>Verified data and rollback stores\<close>

definition example_boot_magic :: "8 word list" where
  "example_boot_magic = [0x41, 0x4E, 0x44, 0x52, 0x4F, 0x49, 0x44, 0x21]"

definition example_boot :: AvbPartitionData where
  "example_boot = \<lparr>partition_name = ''boot'', data = example_boot_magic @ [0, 0, 0, 0]\<rparr>"

definition example_slot_data :: AvbSlotVerifyData where
  "example_slot_data =
     \<lparr>loaded_partitions = [example_boot],
      rollback_indexes = (\<lambda>n. if n = 0 then 5 else if n = 1 then 3 else 0),
      ab_suffix = ''_a'',
      cmdline = Some ''console=ttyS0''\<rparr>"

definition wrong_magic_slot_data :: AvbSlotVerifyData where
  "wrong_magic_slot_data =
     example_slot_data
       \<lparr>loaded_partitions := [\<lparr>partition_name = ''boot'', data = [0, 1, 2, 3, 4, 5, 6, 7, 8, 9]\<rparr>]\<rparr>"

text \<open>
  A verifier that loads the partition whatever it is asked, and reports a verification
  error exactly when it was allowed to go on after one.
\<close>

definition example_avb_env :: avb_env where
  "example_avb_env =
     \<lparr>avb_ops_available = True, USE_SLOT = True, use_slot = True,
      slot_active = Some ''_a'',
      avb_slot_verify = (\<lambda>label suffix flags.
        ((if AVB_SLOT_VERIFY_FLAGS_ALLOW_VERIFICATION_ERROR \<in> flags
          then AVB_SLOT_VERIFY_RESULT_ERROR_VERIFICATION else AVB_SLOT_VERIFY_RESULT_OK),
         Some example_slot_data)),
      avb_ab_flow = (\<lambda>label flags.
        ((if AVB_SLOT_VERIFY_FLAGS_ALLOW_VERIFICATION_ERROR \<in> flags
          then AVB_AB_FLOW_RESULT_OK_WITH_VERIFICATION_ERROR else AVB_AB_FLOW_RESULT_OK),
         Some example_slot_data)),
      gpt_system_partition_uuid = (EFI_SUCCESS, ''0FC63DAF-8483-4772-8E79-3D69D8477DE4'')\<rparr>"

text \<open>The verified command line names a root device itself.\<close>

definition rooted_slot_data :: AvbSlotVerifyData where
  "rooted_slot_data = example_slot_data\<lparr>cmdline := Some ''root=/dev/sda1 ro''\<rparr>"

definition wrong_magic_avb_env :: avb_env where
  "wrong_magic_avb_env =
     example_avb_env
       \<lparr>avb_slot_verify := (\<lambda>label suffix flags.
          (AVB_SLOT_VERIFY_RESULT_OK, Some wrong_magic_slot_data)),
        avb_ab_flow := (\<lambda>label flags. (AVB_AB_FLOW_RESULT_OK, Some wrong_magic_slot_data))\<rparr>"

text \<open>
  A store holding 7 at location 0 and 1 at location 1 with every operation succeeding,
  and the same store with the read at location 1 failing.
\<close>

definition example_ops :: AvbOps where
  "example_ops =
     \<lparr>stored_rollback_index = (\<lambda>n. if n = 0 then 7 else if n = 1 then 1 else 0),
      read_result = (\<lambda>n. AVB_IO_RESULT_OK),
      write_result = (\<lambda>n. AVB_IO_RESULT_OK),
      write_calls = []\<rparr>"

definition partial_advance_ops :: AvbOps where
  "partial_advance_ops =
     \<lparr>stored_rollback_index = (\<lambda>n. 0),
      read_result = (\<lambda>n. if n = 1 then AVB_IO_RESULT_ERROR_IO else AVB_IO_RESULT_OK),
      write_result = (\<lambda>n. AVB_IO_RESULT_OK),
      write_calls = []\<rparr>"

subsection \<open>Environments of the selector\<close>

definition example_name_to_boot_target :: "string \<Rightarrow> boot_target" where
  "example_name_to_boot_target name =
     (if name = ''recovery'' then RECOVERY
      else if name = ''fastboot'' then FASTBOOT
      else if name = ''charging'' then CHARGER
      else if name = ''dnx'' then DNX
      else UNKNOWN_TARGET)"

text \<open>
  A USERDEBUG build on a locked device with nothing asking for a special target: no
  arguments but the image name, no sentinel, no key, an empty BCB, no one-shot
  variable, a charged battery, an image that verifies GREEN as \<open>/boot\<close>.
\<close>

definition quiet_env :: boot_env where
  "quiet_env =
     \<lparr>USER_build = False, USERDEBUG_build = True,
      get_argv = (EFI_SUCCESS, [''kernelflinger.efi'']),
      unittest_main_calls = [],
      file_exists = (\<lambda>path. False),
      magic_key_timeout_var = (EFI_SUCCESS, 0),
      ReadKeyStroke_result = (\<lambda>k. (EFI_NOT_READY, 0)),
      key_reads = 0, stalled_us = 0,
      ui_keycode_to_event = (\<lambda>scan_code. if scan_code = 2 then EV_DOWN else EV_OTHER scan_code),
      ui_enforce_key_held = (\<lambda>delay key. False),
      crash_event_menu = False,
      get_watchdog_status_ret = EFI_SUCCESS,
      watchdog_counter = 0, watchdog_time_ref = 0,
      reset_watchdog_status_ret = EFI_SUCCESS,
      set_watchdog_time_reference_ret = EFI_SUCCESS,
      set_watchdog_counter_ret = EFI_SUCCESS,
      watchdog_counter_max = 2,
      reset_source = RESET_SOURCE_OTHER 0,
      reboot_reason = None,
      GetTime_result = (EFI_SUCCESS, 0),
      ux_prompt_user_for_boot_target = (\<lambda>code. CRASHMODE),
      off_mode_charge = True,
      wake_source = WAKE_SOURCE_OTHER 0,
      battery_below_boot_OS_threshold = False,
      charger_plugged_in = False,
      ux_display_low_battery_calls = [],
      read_bcb_ret = EFI_SUCCESS,
      misc_bcb = \<lparr>command = replicate 32 NUL, status = replicate 32 NUL,
                  recovery = replicate 768 NUL, stage = replicate 32 NUL\<rparr>,
      write_bcb_ret = EFI_SUCCESS,
      write_bcb_calls = [],
      name_to_boot_target = example_name_to_boot_target,
      loader_entry_one_shot = None,
      slot_set_verity_corrupted_ret = EFI_SUCCESS,
      verity_corrupted = False,
      debug_log = [],
      verify_android_boot_image = (\<lambda>bootimage. (BOOT_STATE_GREEN, ''/boot'')),
      recovery_in_boot_partition = False,
      efi_secure_boot_enabled = True,
      device_provisioning = False,
      device_unlocked = False\<rparr>"

text \<open>The down-arrow key (scan code 2) is read at the first poll and released at once.\<close>

definition short_press_env :: boot_env where
  "short_press_env = quiet_env\<lparr>ReadKeyStroke_result := (\<lambda>k. (EFI_SUCCESS, 2))\<rparr>"

text \<open>LoaderEntryOneShot holds "dnx"; the battery is low and a charger is plugged in.\<close>

definition dnx_one_shot_env :: boot_env where
  "dnx_one_shot_env =
     quiet_env\<lparr>loader_entry_one_shot := Some ''dnx'',
               battery_below_boot_OS_threshold := True,
               charger_plugged_in := True\<rparr>"

text \<open>The BCB holds a one-shot recovery command and a stale status.\<close>

definition bootonce_bcb :: bootloader_message where
  "bootonce_bcb =
     \<lparr>command = ''bootonce-recovery'' @ replicate 15 NUL,
      status = ''OKAY'' @ replicate 28 NUL,
      recovery = replicate 768 NUL, stage = replicate 32 NUL\<rparr>"

definition bootonce_env :: boot_env where
  "bootonce_env = quiet_env\<lparr>misc_bcb := bootonce_bcb\<rparr>"

text \<open>The same BCB on a misc partition that cannot be written.\<close>

definition write_fails_env :: boot_env where
  "write_fails_env = bootonce_env\<lparr>write_bcb_ret := EFI_DEVICE_ERROR\<rparr>"

text \<open>The sentinel file is on the ESP, next to the one-shot BCB and a held key.\<close>

definition sentinel_env :: boot_env where
  "sentinel_env =
     quiet_env\<lparr>file_exists := (\<lambda>path. path = FASTBOOT_SENTINEL),
               ReadKeyStroke_result := (\<lambda>k. (EFI_SUCCESS, 2)),
               ui_enforce_key_held := (\<lambda>delay key. True),
               misc_bcb := bootonce_bcb\<rparr>"

text \<open>A build without USERDEBUG: \<open>efi_main\<close> starts from RED.\<close>

definition engineering_env :: boot_env where
  "engineering_env = quiet_env\<lparr>USERDEBUG_build := False\<rparr>"

text \<open>An unlocked device whose boot image does not verify.\<close>

definition unlocked_env :: boot_env where
  "unlocked_env =
     quiet_env\<lparr>device_unlocked := True,
               verify_android_boot_image := (\<lambda>bootimage. (BOOT_STATE_RED, []))\<rparr>"


section \<open>Verification\<close>

subsection \<open>The adapter table and the magic check\<close>

lemma get_avb_result_good_magic:
  assumes "loaded_partitions sd \<noteq> []"
    and "take BOOT_MAGIC_SIZE (data (hd (loaded_partitions sd))) = take BOOT_MAGIC_SIZE boot_magic"
  shows "get_avb_result boot_magic (Some sd) allow verify_result (Some bs) =
           (EFI_SUCCESS, Some (adapter_table (verify_result = AVB_SLOT_VERIFY_RESULT_OK) allow bs))"
  using assms
  by (cases verify_result)
     (simp_all add: get_avb_result_def num_loaded_partitions_def avb_memcmp_def header_magic_def
        adapter_table_def)

lemma get_avb_flow_result_good_magic:
  assumes "loaded_partitions sd \<noteq> []"
    and "take BOOT_MAGIC_SIZE (data (hd (loaded_partitions sd))) = take BOOT_MAGIC_SIZE boot_magic"
  shows "get_avb_flow_result boot_magic (Some sd) allow flow_result (Some bs) =
           (EFI_SUCCESS, Some (adapter_table (flow_result = AVB_AB_FLOW_RESULT_OK) allow bs))"
  using assms
  by (cases flow_result)
     (simp_all add: get_avb_flow_result_def num_loaded_partitions_def avb_memcmp_def
        header_magic_def adapter_table_def)

lemma get_avb_result_wrong_magic:
  assumes "loaded_partitions sd \<noteq> []"
    and "take BOOT_MAGIC_SIZE (data (hd (loaded_partitions sd))) \<noteq> take BOOT_MAGIC_SIZE boot_magic"
  shows "get_avb_result boot_magic (Some sd) allow verify_result (Some bs) =
           (EFI_NOT_FOUND, Some bs)"
  using assms
  by (auto simp add: get_avb_result_def num_loaded_partitions_def avb_memcmp_def header_magic_def)

lemma get_avb_flow_result_wrong_magic:
  assumes "loaded_partitions sd \<noteq> []"
    and "take BOOT_MAGIC_SIZE (data (hd (loaded_partitions sd))) \<noteq> take BOOT_MAGIC_SIZE boot_magic"
  shows "get_avb_flow_result boot_magic (Some sd) allow flow_result (Some bs) =
           (EFI_NOT_FOUND, Some bs)"
  using assms
  by (auto simp add: get_avb_flow_result_def num_loaded_partitions_def avb_memcmp_def
        header_magic_def)

lemma load_partition_avb_good_magic:
  assumes "loaded_partitions sd \<noteq> []"
    and "take BOOT_MAGIC_SIZE (data (hd (loaded_partitions sd))) = take BOOT_MAGIC_SIZE boot_magic"
    and "avb_ops_available env"
    and "avb_slot_verify env label (slot_suffix_passed env) (flags_passed bs) = (vr, Some sd)"
  shows "android_image_load_partition_avb boot_magic env label bs sd0 =
     (EFI_SUCCESS, Some (data (hd (loaded_partitions sd))),
      adapter_table (vr = AVB_SLOT_VERIFY_RESULT_OK) (bs \<noteq> BOOT_STATE_GREEN) bs, Some sd)"
  using assms(3,4) get_avb_result_good_magic[OF assms(1,2)]
  by (cases "bs = BOOT_STATE_GREEN")
     (simp_all add: android_image_load_partition_avb_def Let_def slot_suffix_passed_def
        flags_passed_def AVB_SLOT_VERIFY_FLAGS_NONE_def EFI_ERROR_def)

lemma load_partition_avb_ab_good_magic:
  assumes "loaded_partitions sd \<noteq> []"
    and "take BOOT_MAGIC_SIZE (data (hd (loaded_partitions sd))) = take BOOT_MAGIC_SIZE boot_magic"
    and "USE_SLOT env"
    and "avb_ab_flow env label (flags_passed bs) = (fr, Some sd)"
  shows "android_image_load_partition_avb_ab boot_magic env label bs sd0 =
     ((EFI_SUCCESS, Some (data (hd (loaded_partitions sd))),
       adapter_table (fr = AVB_AB_FLOW_RESULT_OK) (bs \<noteq> BOOT_STATE_GREEN) bs, Some sd),
      env\<lparr>slot_active := Some (ab_suffix sd)\<rparr>)"
  using assms(3,4) get_avb_flow_result_good_magic[OF assms(1,2)]
  by (cases "bs = BOOT_STATE_GREEN")
     (simp_all add: android_image_load_partition_avb_ab_def Let_def flags_passed_def
        AVB_SLOT_VERIFY_FLAGS_NONE_def EFI_ERROR_def)

lemma load_partition_avb_wrong_magic:
  assumes "loaded_partitions sd \<noteq> []"
    and "take BOOT_MAGIC_SIZE (data (hd (loaded_partitions sd))) \<noteq> take BOOT_MAGIC_SIZE boot_magic"
    and "avb_ops_available env"
    and "avb_slot_verify env label (slot_suffix_passed env) (flags_passed bs) = (vr, Some sd)"
  shows "android_image_load_partition_avb boot_magic env label bs sd0 =
     (EFI_NOT_FOUND, None, BOOT_STATE_RED, Some sd)"
  using assms(3,4) get_avb_result_wrong_magic[OF assms(1,2)]
  by (cases "bs = BOOT_STATE_GREEN")
     (simp_all add: android_image_load_partition_avb_def Let_def slot_suffix_passed_def
        flags_passed_def AVB_SLOT_VERIFY_FLAGS_NONE_def EFI_ERROR_def)

lemma load_partition_avb_ab_wrong_magic:
  assumes "loaded_partitions sd \<noteq> []"
    and "take BOOT_MAGIC_SIZE (data (hd (loaded_partitions sd))) \<noteq> take BOOT_MAGIC_SIZE boot_magic"
    and "USE_SLOT env"
    and "avb_ab_flow env label (flags_passed bs) = (fr, Some sd)"
  shows "android_image_load_partition_avb_ab boot_magic env label bs sd0 =
     ((EFI_NOT_FOUND, None, BOOT_STATE_RED, Some sd), env)"
  using assms(3,4) get_avb_flow_result_wrong_magic[OF assms(1,2)]
  by (cases "bs = BOOT_STATE_GREEN")
     (simp_all add: android_image_load_partition_avb_ab_def Let_def flags_passed_def
        AVB_SLOT_VERIFY_FLAGS_NONE_def EFI_ERROR_def)

text \<open>
  Claim C1. On a loaded partition whose header magic is right, \<open>get_avb_result\<close> and
  \<open>get_avb_flow_result\<close> succeed and leave in \<open>*boot_state\<close> what the adapter table
  gives for the verifier outcome, \<open>allow_verification_error\<close> and the incoming state;
  and a loader that entered with \<open>bs\<close> calls the verifier with the flags for
  \<open>bs \<noteq> GREEN\<close> and returns the table's state for \<open>allow_error = (bs \<noteq> GREEN)\<close>.
\<close>

theorem adapter_table_applied:
  assumes "loaded_partitions sd \<noteq> []"
    and "take BOOT_MAGIC_SIZE (data (hd (loaded_partitions sd))) = take BOOT_MAGIC_SIZE boot_magic"
  shows
    "get_avb_result boot_magic (Some sd) allow verify_result (Some bs) =
       (EFI_SUCCESS, Some (adapter_table (verify_result = AVB_SLOT_VERIFY_RESULT_OK) allow bs))
     \<and> get_avb_flow_result boot_magic (Some sd) allow flow_result (Some bs) =
       (EFI_SUCCESS, Some (adapter_table (flow_result = AVB_AB_FLOW_RESULT_OK) allow bs))
     \<and> (avb_ops_available env \<and>
        avb_slot_verify env label (slot_suffix_passed env) (flags_passed bs) = (vr, Some sd) \<longrightarrow>
        android_image_load_partition_avb boot_magic env label bs sd0 =
          (EFI_SUCCESS, Some (data (hd (loaded_partitions sd))),
           adapter_table (vr = AVB_SLOT_VERIFY_RESULT_OK) (bs \<noteq> BOOT_STATE_GREEN) bs, Some sd))
     \<and> (USE_SLOT env \<and> avb_ab_flow env label (flags_passed bs) = (fr, Some sd) \<longrightarrow>
        android_image_load_partition_avb_ab boot_magic env label bs sd0 =
          ((EFI_SUCCESS, Some (data (hd (loaded_partitions sd))),
            adapter_table (fr = AVB_AB_FLOW_RESULT_OK) (bs \<noteq> BOOT_STATE_GREEN) bs, Some sd),
           env\<lparr>slot_active := Some (ab_suffix sd)\<rparr>))"
  using get_avb_result_good_magic[OF assms] get_avb_flow_result_good_magic[OF assms]
    load_partition_avb_good_magic[OF assms] load_partition_avb_ab_good_magic[OF assms]
  by blast

text \<open>
  Claim C1 at an input: a YELLOW state with errors allowed and a verification error
  becomes ORANGE; the loader entered with GREEN asks for no tolerance and stays GREEN,
  entered with YELLOW it tolerates the verifier's error and ends ORANGE.
\<close>

theorem adapter_table_applied_witness:
  "get_avb_result example_boot_magic (Some example_slot_data) True
       AVB_SLOT_VERIFY_RESULT_ERROR_VERIFICATION (Some BOOT_STATE_YELLOW) =
     (EFI_SUCCESS, Some BOOT_STATE_ORANGE)
   \<and> android_image_load_partition_avb example_boot_magic example_avb_env ''boot''
       BOOT_STATE_GREEN None =
     (EFI_SUCCESS, Some (data example_boot), BOOT_STATE_GREEN, Some example_slot_data)
   \<and> android_image_load_partition_avb_ab example_boot_magic example_avb_env ''boot''
       BOOT_STATE_YELLOW None =
     ((EFI_SUCCESS, Some (data example_boot), BOOT_STATE_ORANGE, Some example_slot_data),
      example_avb_env\<lparr>slot_active := Some ''_a''\<rparr>)"
proof -
  have h1: "loaded_partitions example_slot_data \<noteq> []"
    by (simp add: example_slot_data_def)
  have h2: "take BOOT_MAGIC_SIZE (data (hd (loaded_partitions example_slot_data))) =
      take BOOT_MAGIC_SIZE example_boot_magic"
    by (simp add: example_slot_data_def example_boot_def example_boot_magic_def
          BOOT_MAGIC_SIZE_def)
  have v: "avb_slot_verify example_avb_env ''boot'' (slot_suffix_passed example_avb_env)
      (flags_passed BOOT_STATE_GREEN) = (AVB_SLOT_VERIFY_RESULT_OK, Some example_slot_data)"
    by (simp add: example_avb_env_def flags_passed_def)
  have f: "avb_ab_flow example_avb_env ''boot'' (flags_passed BOOT_STATE_YELLOW) =
      (AVB_AB_FLOW_RESULT_OK_WITH_VERIFICATION_ERROR, Some example_slot_data)"
    by (simp add: example_avb_env_def flags_passed_def BOOT_STATE_YELLOW_def
          BOOT_STATE_GREEN_def)
  have o: "avb_ops_available example_avb_env" "USE_SLOT example_avb_env"
    by (simp_all add: example_avb_env_def)
  have t: "adapter_table False True BOOT_STATE_YELLOW = BOOT_STATE_ORANGE"
      "adapter_table True False BOOT_STATE_GREEN = BOOT_STATE_GREEN"
    by (simp_all add: adapter_table_def BOOT_STATE_YELLOW_def BOOT_STATE_GREEN_def
          BOOT_STATE_ORANGE_def)
  have s: "ab_suffix example_slot_data = ''_a''"
      "hd (loaded_partitions example_slot_data) = example_boot"
    by (simp_all add: example_slot_data_def)
  have y: "BOOT_STATE_YELLOW \<noteq> BOOT_STATE_GREEN"
    by (simp add: BOOT_STATE_YELLOW_def BOOT_STATE_GREEN_def)
  from adapter_table_applied[OF h1 h2, where allow = True
      and verify_result = AVB_SLOT_VERIFY_RESULT_ERROR_VERIFICATION and bs = BOOT_STATE_YELLOW]
  have a: "get_avb_result example_boot_magic (Some example_slot_data) True
       AVB_SLOT_VERIFY_RESULT_ERROR_VERIFICATION (Some BOOT_STATE_YELLOW) =
     (EFI_SUCCESS, Some BOOT_STATE_ORANGE)"
    by (simp add: t)
  from adapter_table_applied[OF h1 h2, where bs = BOOT_STATE_GREEN and env = example_avb_env
      and label = "''boot''" and vr = AVB_SLOT_VERIFY_RESULT_OK and ?sd0.0 = None] o v
  have b: "android_image_load_partition_avb example_boot_magic example_avb_env ''boot''
       BOOT_STATE_GREEN None =
     (EFI_SUCCESS, Some (data example_boot), BOOT_STATE_GREEN, Some example_slot_data)"
    by (simp add: t s)
  from adapter_table_applied[OF h1 h2, where bs = BOOT_STATE_YELLOW and env = example_avb_env
      and label = "''boot''" and fr = AVB_AB_FLOW_RESULT_OK_WITH_VERIFICATION_ERROR
      and ?sd0.0 = None] o f
  have c: "android_image_load_partition_avb_ab example_boot_magic example_avb_env ''boot''
       BOOT_STATE_YELLOW None =
     ((EFI_SUCCESS, Some (data example_boot), BOOT_STATE_ORANGE, Some example_slot_data),
      example_avb_env\<lparr>slot_active := Some ''_a''\<rparr>)"
    by (simp add: t s y)
  from a b c show ?thesis by blast
qed

text \<open>
  Claim C8. A loaded payload whose first eight bytes are not the boot magic makes
  \<open>get_avb_result\<close> and \<open>get_avb_flow_result\<close> return \<open>EFI_NOT_FOUND\<close> with
  \<open>*boot_state\<close> untouched, whatever the verifier outcome and
  \<open>allow_verification_error\<close>; the loaders then return with \<open>*bootimage_p\<close> NULL and
  \<open>*boot_state\<close> RED, and the A/B loader does not record a slot.
\<close>

theorem wrong_magic_rejected:
  assumes "loaded_partitions sd \<noteq> []"
    and "take BOOT_MAGIC_SIZE (data (hd (loaded_partitions sd))) \<noteq> take BOOT_MAGIC_SIZE boot_magic"
  shows
    "get_avb_result boot_magic (Some sd) allow verify_result (Some bs) = (EFI_NOT_FOUND, Some bs)
     \<and> get_avb_flow_result boot_magic (Some sd) allow flow_result (Some bs) =
       (EFI_NOT_FOUND, Some bs)
     \<and> (avb_ops_available env \<and>
        avb_slot_verify env label (slot_suffix_passed env) (flags_passed bs) = (vr, Some sd) \<longrightarrow>
        android_image_load_partition_avb boot_magic env label bs sd0 =
          (EFI_NOT_FOUND, None, BOOT_STATE_RED, Some sd))
     \<and> (USE_SLOT env \<and> avb_ab_flow env label (flags_passed bs) = (fr, Some sd) \<longrightarrow>
        android_image_load_partition_avb_ab boot_magic env label bs sd0 =
          ((EFI_NOT_FOUND, None, BOOT_STATE_RED, Some sd), env))"
  using get_avb_result_wrong_magic[OF assms] get_avb_flow_result_wrong_magic[OF assms]
    load_partition_avb_wrong_magic[OF assms] load_partition_avb_ab_wrong_magic[OF assms]
  by blast

text \<open>
  Claim C8 at an input: a payload starting with the bytes 0..7 is refused although the
  verifier reported OK, with errors allowed and with an ORANGE state.
\<close>

theorem wrong_magic_rejected_witness:
  "get_avb_result example_boot_magic (Some wrong_magic_slot_data) True
       AVB_SLOT_VERIFY_RESULT_OK (Some BOOT_STATE_ORANGE) =
     (EFI_NOT_FOUND, Some BOOT_STATE_ORANGE)
   \<and> android_image_load_partition_avb example_boot_magic wrong_magic_avb_env ''boot''
       BOOT_STATE_ORANGE None =
     (EFI_NOT_FOUND, None, BOOT_STATE_RED, Some wrong_magic_slot_data)
   \<and> android_image_load_partition_avb_ab example_boot_magic wrong_magic_avb_env ''boot''
       BOOT_STATE_ORANGE None =
     ((EFI_NOT_FOUND, None, BOOT_STATE_RED, Some wrong_magic_slot_data), wrong_magic_avb_env)"
proof -
  have h1: "loaded_partitions wrong_magic_slot_data \<noteq> []"
    by (simp add: wrong_magic_slot_data_def)
  have h2: "take BOOT_MAGIC_SIZE (data (hd (loaded_partitions wrong_magic_slot_data))) \<noteq>
      take BOOT_MAGIC_SIZE example_boot_magic"
    by (simp add: wrong_magic_slot_data_def example_boot_magic_def BOOT_MAGIC_SIZE_def)
  have v: "avb_slot_verify wrong_magic_avb_env ''boot'' (slot_suffix_passed wrong_magic_avb_env)
      (flags_passed BOOT_STATE_ORANGE) = (AVB_SLOT_VERIFY_RESULT_OK, Some wrong_magic_slot_data)"
    by (simp add: wrong_magic_avb_env_def)
  have f: "avb_ab_flow wrong_magic_avb_env ''boot'' (flags_passed BOOT_STATE_ORANGE) =
      (AVB_AB_FLOW_RESULT_OK, Some wrong_magic_slot_data)"
    by (simp add: wrong_magic_avb_env_def)
  have o: "avb_ops_available wrong_magic_avb_env" "USE_SLOT wrong_magic_avb_env"
    by (simp_all add: wrong_magic_avb_env_def example_avb_env_def)
  from wrong_magic_rejected[OF h1 h2, where allow = True
      and verify_result = AVB_SLOT_VERIFY_RESULT_OK and bs = BOOT_STATE_ORANGE
      and env = wrong_magic_avb_env and label = "''boot''" and vr = AVB_SLOT_VERIFY_RESULT_OK
      and fr = AVB_AB_FLOW_RESULT_OK and ?sd0.0 = None] o v f
  show ?thesis by simp
qed

subsection \<open>validate_bootimage and the trust state in efi_main\<close>

text \<open>
  Claim C10. For a boot target other than \<open>NORMAL_BOOT\<close>, \<open>MEMORY\<close>, \<open>CHARGER\<close>,
  \<open>RECOVERY\<close> and \<open>ESP_BOOTIMAGE\<close>, \<open>validate_bootimage\<close> returns RED whatever
  \<open>verify_android_boot_image\<close> found.
\<close>

theorem validate_bootimage_unsupported_target:
  assumes "boot_target \<notin> {NORMAL_BOOT, MEMORY, CHARGER, RECOVERY, ESP_BOOTIMAGE}"
  shows "validate_bootimage env boot_target bootimage = BOOT_STATE_RED"
  using assms
  by (cases boot_target) (simp_all add: validate_bootimage_def unexpected_def split: prod.splits)

text \<open>
  Claim C10 at an input: an image that verifies GREEN with the name \<open>/boot\<close> is RED
  for the targets \<open>FASTBOOT\<close> and \<open>ESP_EFI_BINARY\<close>, and GREEN for \<open>NORMAL_BOOT\<close>.
\<close>

theorem validate_bootimage_unsupported_target_witness:
  "verify_android_boot_image quiet_env [] = (BOOT_STATE_GREEN, ''/boot'')
   \<and> validate_bootimage quiet_env FASTBOOT [] = BOOT_STATE_RED
   \<and> validate_bootimage quiet_env ESP_EFI_BINARY [] = BOOT_STATE_RED
   \<and> validate_bootimage quiet_env NORMAL_BOOT [] = BOOT_STATE_GREEN"
proof -
  have a: "FASTBOOT \<notin> {NORMAL_BOOT, MEMORY, CHARGER, RECOVERY, ESP_BOOTIMAGE}" by simp
  have b: "ESP_EFI_BINARY \<notin> {NORMAL_BOOT, MEMORY, CHARGER, RECOVERY, ESP_BOOTIMAGE}" by simp
  have c: "verify_android_boot_image quiet_env [] = (BOOT_STATE_GREEN, ''/boot'')"
    by (simp add: quiet_env_def)
  have d: "validate_bootimage quiet_env NORMAL_BOOT [] = BOOT_STATE_GREEN"
    by (simp add: validate_bootimage_def c unexpected_def StrCmp_def BOOT_STATE_GREEN_def
          BOOT_STATE_RED_def)
  from validate_bootimage_unsupported_target[OF a, of quiet_env "[]"]
    validate_bootimage_unsupported_target[OF b, of quiet_env "[]"] c d
  show ?thesis by simp
qed

subsection \<open>The rollback controller\<close>

declare rollback_loop.simps [simp del]

lemma rollback_loop_unfold:
  "rollback_loop m n ops sd =
     (if n < m then
        if rollback_indexes sd n = 0 then rollback_loop m (Suc n) ops sd
        else if read_result ops n \<noteq> AVB_IO_RESULT_OK then (False, ops)
        else if stored_rollback_index ops n < rollback_indexes sd n then
          if write_result ops n \<noteq> AVB_IO_RESULT_OK
          then (False, snd (write_rollback_index ops n (rollback_indexes sd n)))
          else rollback_loop m (Suc n) (snd (write_rollback_index ops n (rollback_indexes sd n))) sd
        else rollback_loop m (Suc n) ops sd
      else (True, ops))"
  apply (subst rollback_loop.simps)
  apply (simp add: Let_def read_rollback_index_def write_rollback_index_def word_gt_0)
  done

text \<open>What one round of the loop does, for a call that returns \<open>ok\<close>.\<close>

lemma rollback_loop_cases:
  assumes "rollback_loop m n ops sd = (ok, ops')" "n < m"
  shows "(\<not> ok \<and> fails_at n ops sd \<and> stored_rollback_index ops' = stored_rollback_index ops \<and>
          (write_calls ops' = write_calls ops \<or>
           write_calls ops' = write_calls ops @ [(n, rollback_indexes sd n)] \<and>
           stored_rollback_index ops n < rollback_indexes sd n))
    \<or> (\<not> fails_at n ops sd \<and> rollback_loop m (Suc n) ops sd = (ok, ops') \<and>
        (rollback_indexes sd n = 0 \<or> \<not> stored_rollback_index ops n < rollback_indexes sd n))
    \<or> (\<not> fails_at n ops sd \<and>
        rollback_loop m (Suc n) (snd (write_rollback_index ops n (rollback_indexes sd n))) sd =
          (ok, ops') \<and>
        rollback_indexes sd n \<noteq> 0 \<and> stored_rollback_index ops n < rollback_indexes sd n \<and>
        write_result ops n = AVB_IO_RESULT_OK)"
  using assms
  by (auto simp: rollback_loop_unfold[of m n] fails_at_def write_rollback_index_def
        split: if_splits)

lemma rollback_loop_done: "\<not> n < m \<Longrightarrow> rollback_loop m n ops sd = (True, ops)"
  by (simp add: rollback_loop_unfold[of m n])

lemma write_rollback_index_ok:
  assumes "write_result ops n = AVB_IO_RESULT_OK"
  shows "stored_rollback_index (snd (write_rollback_index ops n v)) =
           (stored_rollback_index ops)(n := v)"
    and "read_result (snd (write_rollback_index ops n v)) = read_result ops"
    and "write_result (snd (write_rollback_index ops n v)) = write_result ops"
    and "write_calls (snd (write_rollback_index ops n v)) = write_calls ops @ [(n, v)]"
  using assms by (simp_all add: write_rollback_index_def)

text \<open>Locations outside \<open>[n, m)\<close> are not touched.\<close>

lemma rollback_loop_frame:
  "rollback_loop m n ops sd = (ok, ops') \<Longrightarrow> k < n \<or> m \<le> k \<Longrightarrow>
     stored_rollback_index ops' k = stored_rollback_index ops k"
proof (induction "m - n" arbitrary: n ops)
  case 0
  then show ?case by (simp add: rollback_loop_done)
next
  case (Suc d)
  have nm: "n < m" and d: "d = m - Suc n" using Suc.hyps(2) by simp_all
  have k: "k < Suc n \<or> m \<le> k" "k \<noteq> n" using Suc.prems(2) nm by auto
  from rollback_loop_cases[OF Suc.prems(1) nm] consider
      (stop) "stored_rollback_index ops' = stored_rollback_index ops"
    | (keep) "rollback_loop m (Suc n) ops sd = (ok, ops')"
    | (wrote) "rollback_loop m (Suc n) (snd (write_rollback_index ops n (rollback_indexes sd n))) sd
                 = (ok, ops')" "write_result ops n = AVB_IO_RESULT_OK"
    by blast
  then show ?case
  proof cases
    case stop
    then show ?thesis by simp
  next
    case keep
    from Suc.hyps(1)[OF d keep k(1)] show ?thesis .
  next
    case wrote
    from Suc.hyps(1)[OF d wrote(1) k(1)] k(2) show ?thesis
      by (simp add: write_rollback_index_ok[OF wrote(2)])
  qed
qed

text \<open>A call that returns true leaves the maximum at every location of \<open>[n, m)\<close>.\<close>

lemma rollback_loop_success:
  "rollback_loop m n ops sd = (True, ops') \<Longrightarrow> n \<le> k \<Longrightarrow> k < m \<Longrightarrow>
     stored_rollback_index ops' k = max (stored_rollback_index ops k) (rollback_indexes sd k)"
proof (induction "m - n" arbitrary: n ops)
  case 0
  then show ?case by simp
next
  case (Suc d)
  let ?idx = "rollback_indexes sd"
  let ?w = "snd (write_rollback_index ops n (?idx n))"
  have nm: "n < m" and d: "d = m - Suc n" using Suc.hyps(2) by simp_all
  from rollback_loop_cases[OF Suc.prems(1) nm] consider
      (keep) "rollback_loop m (Suc n) ops sd = (True, ops')"
             "?idx n = 0 \<or> \<not> stored_rollback_index ops n < ?idx n"
    | (wrote) "rollback_loop m (Suc n) ?w sd = (True, ops')"
              "stored_rollback_index ops n < ?idx n" "write_result ops n = AVB_IO_RESULT_OK"
    by blast
  then show ?case
  proof cases
    case keep
    show ?thesis
    proof (cases "k = n")
      case True
      have "stored_rollback_index ops' n = stored_rollback_index ops n"
        using rollback_loop_frame[OF keep(1), of n] by simp
      moreover have "max (stored_rollback_index ops n) (?idx n) = stored_rollback_index ops n"
        using keep(2) by (auto simp: max_def)
      ultimately show ?thesis using True by simp
    next
      case False
      with Suc.prems(2) have "Suc n \<le> k" by simp
      from Suc.hyps(1)[OF d keep(1) this Suc.prems(3)] show ?thesis .
    qed
  next
    case wrote
    note w = write_rollback_index_ok[OF wrote(3), of "?idx n"]
    show ?thesis
    proof (cases "k = n")
      case True
      have "stored_rollback_index ops' n = ?idx n"
        using rollback_loop_frame[OF wrote(1), of n] by (simp add: w)
      moreover have "max (stored_rollback_index ops n) (?idx n) = ?idx n"
        using wrote(2) by (auto simp: max_def)
      ultimately show ?thesis using True by simp
    next
      case False
      with Suc.prems(2) have "Suc n \<le> k" by simp
      from Suc.hyps(1)[OF d wrote(1) this Suc.prems(3)] False show ?thesis
        by (simp add: w)
    qed
  qed
qed

text \<open>No stored index goes down, whatever the call returns.\<close>

lemma rollback_loop_mono:
  "rollback_loop m n ops sd = (ok, ops') \<Longrightarrow>
     stored_rollback_index ops k \<le> stored_rollback_index ops' k"
proof (induction "m - n" arbitrary: n ops)
  case 0
  then show ?case by (simp add: rollback_loop_done)
next
  case (Suc d)
  let ?idx = "rollback_indexes sd"
  let ?w = "snd (write_rollback_index ops n (?idx n))"
  have nm: "n < m" and d: "d = m - Suc n" using Suc.hyps(2) by simp_all
  from rollback_loop_cases[OF Suc.prems(1) nm] consider
      (stop) "stored_rollback_index ops' = stored_rollback_index ops"
    | (keep) "rollback_loop m (Suc n) ops sd = (ok, ops')"
    | (wrote) "rollback_loop m (Suc n) ?w sd = (ok, ops')"
              "stored_rollback_index ops n < ?idx n" "write_result ops n = AVB_IO_RESULT_OK"
    by blast
  then show ?case
  proof cases
    case stop
    then show ?thesis by simp
  next
    case keep
    from Suc.hyps(1)[OF d keep] show ?thesis .
  next
    case wrote
    note w = write_rollback_index_ok[OF wrote(3), of "?idx n"]
    have "stored_rollback_index ops k \<le> stored_rollback_index ?w k"
      using wrote(2) by (auto simp: w)
    also have "\<dots> \<le> stored_rollback_index ops' k"
      by (rule Suc.hyps(1)[OF d wrote(1)])
    finally show ?thesis .
  qed
qed

text \<open>Every call of \<open>write_rollback_index\<close> the loop makes is justified.\<close>

lemma rollback_loop_writes:
  "rollback_loop m n ops sd = (ok, ops') \<Longrightarrow>
     \<exists>ws. write_calls ops' = write_calls ops @ ws \<and> list_all (justified_write n m ops sd) ws"
proof (induction "m - n" arbitrary: n ops)
  case 0
  then show ?case by (simp add: rollback_loop_done)
next
  case (Suc d)
  let ?idx = "rollback_indexes sd"
  let ?w = "snd (write_rollback_index ops n (?idx n))"
  have nm: "n < m" and d: "d = m - Suc n" using Suc.hyps(2) by simp_all
  from rollback_loop_cases[OF Suc.prems nm] consider
      (stop) "write_calls ops' = write_calls ops"
    | (wfail) "write_calls ops' = write_calls ops @ [(n, ?idx n)]"
        "fails_at n ops sd" "stored_rollback_index ops n < ?idx n"
    | (keep) "rollback_loop m (Suc n) ops sd = (ok, ops')"
    | (wrote) "rollback_loop m (Suc n) ?w sd = (ok, ops')"
        "?idx n \<noteq> 0" "stored_rollback_index ops n < ?idx n"
        "write_result ops n = AVB_IO_RESULT_OK"
    by blast
  then show ?case
  proof cases
    case stop
    then show ?thesis by simp
  next
    case wfail
    with nm show ?thesis by (simp add: justified_write_def fails_at_def)
  next
    case keep
    from Suc.hyps(1)[OF d keep] obtain ws where
      ws: "write_calls ops' = write_calls ops @ ws" "list_all (justified_write (Suc n) m ops sd) ws"
      by blast
    have "list_all (justified_write n m ops sd) ws"
      using ws(2) by (auto simp: list_all_iff justified_write_def)
    with ws(1) show ?thesis by blast
  next
    case wrote
    note w = write_rollback_index_ok[OF wrote(4), of "?idx n"]
    from Suc.hyps(1)[OF d wrote(1)] obtain ws where
      ws: "write_calls ops' = write_calls ?w @ ws" "list_all (justified_write (Suc n) m ?w sd) ws"
      by blast
    have "list_all (justified_write n m ops sd) ws"
      using ws(2) by (auto simp: list_all_iff justified_write_def w)
    moreover have "justified_write n m ops sd (n, ?idx n)"
      using wrote(2,3) nm by (simp add: justified_write_def)
    moreover have "write_calls ops' = write_calls ops @ ((n, ?idx n) # ws)"
      using ws(1) by (simp add: w)
    ultimately show ?thesis
      by (intro exI[of _ "(n, ?idx n) # ws"]) simp
  qed
qed

text \<open>A call that returns true met no failing location in \<open>[n, m)\<close>.\<close>

lemma rollback_loop_true_no_failure:
  "rollback_loop m n ops sd = (True, ops') \<Longrightarrow> n \<le> k \<Longrightarrow> k < m \<Longrightarrow>
     \<not> fails_at k ops sd"
proof (induction "m - n" arbitrary: n ops)
  case 0
  then show ?case by simp
next
  case (Suc d)
  let ?idx = "rollback_indexes sd"
  let ?w = "snd (write_rollback_index ops n (?idx n))"
  have nm: "n < m" and d: "d = m - Suc n" using Suc.hyps(2) by simp_all
  from rollback_loop_cases[OF Suc.prems(1) nm] consider
      (keep) "\<not> fails_at n ops sd" "rollback_loop m (Suc n) ops sd = (True, ops')"
    | (wrote) "\<not> fails_at n ops sd" "rollback_loop m (Suc n) ?w sd = (True, ops')"
              "write_result ops n = AVB_IO_RESULT_OK"
    by blast
  then show ?case
  proof cases
    case keep
    show ?thesis
    proof (cases "k = n")
      case True
      with keep(1) show ?thesis by simp
    next
      case False
      with Suc.prems(2) have "Suc n \<le> k" by simp
      from Suc.hyps(1)[OF d keep(2) this Suc.prems(3)] show ?thesis .
    qed
  next
    case wrote
    note w = write_rollback_index_ok[OF wrote(3), of "?idx n"]
    show ?thesis
    proof (cases "k = n")
      case True
      with wrote(1) show ?thesis by simp
    next
      case False
      with Suc.prems(2) have "Suc n \<le> k" by simp
      from Suc.hyps(1)[OF d wrote(2) this Suc.prems(3)] False show ?thesis
        by (simp add: fails_at_def w)
    qed
  qed
qed

text \<open>No write is attempted at a location after one that fails.\<close>

lemma rollback_loop_writes_before_failure:
  "rollback_loop m n ops sd = (ok, ops') \<Longrightarrow>
     \<exists>ws. write_calls ops' = write_calls ops @ ws \<and>
       (\<forall>w \<in> set ws. \<forall>k. n \<le> k \<and> fails_at k ops sd \<longrightarrow> fst w \<le> k)"
proof (induction "m - n" arbitrary: n ops)
  case 0
  then have "ops' = ops" by (simp add: rollback_loop_done)
  then show ?case by simp
next
  case (Suc d)
  let ?idx = "rollback_indexes sd"
  let ?w = "snd (write_rollback_index ops n (?idx n))"
  have nm: "n < m" and d: "d = m - Suc n" using Suc.hyps(2) by simp_all
  from rollback_loop_cases[OF Suc.prems nm] consider
      (stop) "write_calls ops' = write_calls ops"
    | (wfail) "write_calls ops' = write_calls ops @ [(n, ?idx n)]"
    | (keep) "\<not> fails_at n ops sd" "rollback_loop m (Suc n) ops sd = (ok, ops')"
    | (wrote) "\<not> fails_at n ops sd" "rollback_loop m (Suc n) ?w sd = (ok, ops')"
              "write_result ops n = AVB_IO_RESULT_OK"
    by blast
  then show ?case
  proof cases
    case stop
    then show ?thesis by simp
  next
    case wfail
    then show ?thesis by simp
  next
    case keep
    from Suc.hyps(1)[OF d keep(2)] obtain ws where
      ws: "write_calls ops' = write_calls ops @ ws"
          "\<forall>w \<in> set ws. \<forall>k. Suc n \<le> k \<and> fails_at k ops sd \<longrightarrow> fst w \<le> k"
      by blast
    have "\<forall>w \<in> set ws. \<forall>k. n \<le> k \<and> fails_at k ops sd \<longrightarrow> fst w \<le> k"
    proof (intro ballI allI impI)
      fix w k assume w: "w \<in> set ws" and k: "n \<le> k \<and> fails_at k ops sd"
      with keep(1) have "k \<noteq> n" by blast
      with k have "Suc n \<le> k \<and> fails_at k ops sd" by simp
      with ws(2) w show "fst w \<le> k" by blast
    qed
    with ws(1) show ?thesis by blast
  next
    case wrote
    note w = write_rollback_index_ok[OF wrote(3), of "?idx n"]
    from Suc.hyps(1)[OF d wrote(2)] obtain ws where
      ws: "write_calls ops' = write_calls ?w @ ws"
          "\<forall>w \<in> set ws. \<forall>k. Suc n \<le> k \<and> fails_at k ?w sd \<longrightarrow> fst w \<le> k"
      by blast
    have same: "fails_at j ?w sd = fails_at j ops sd" if "j \<noteq> n" for j
      using that by (simp add: fails_at_def w)
    have "\<forall>x \<in> set ((n, ?idx n) # ws). \<forall>k. n \<le> k \<and> fails_at k ops sd \<longrightarrow> fst x \<le> k"
    proof (intro ballI allI impI)
      fix x k assume x: "x \<in> set ((n, ?idx n) # ws)" and k: "n \<le> k \<and> fails_at k ops sd"
      show "fst x \<le> k"
      proof (cases "x = (n, ?idx n)")
        case True
        with k show ?thesis by simp
      next
        case False
        with x have xin: "x \<in> set ws" by simp
        from k wrote(1) have kn: "k \<noteq> n" by blast
        with k same[OF kn] have "Suc n \<le> k \<and> fails_at k ?w sd" by simp
        with ws(2) xin show ?thesis by blast
      qed
    qed
    moreover have "write_calls ops' = write_calls ops @ ((n, ?idx n) # ws)"
      using ws(1) by (simp add: w)
    ultimately show ?thesis by blast
  qed
qed

text \<open>
  A call that returns false stopped at the first failing location \<open>k\<close>: no location
  of \<open>[n, k)\<close> fails and each holds the maximum, \<open>k\<close> and the locations after it are
  as they were.
\<close>

lemma rollback_loop_failure:
  "rollback_loop m n ops sd = (False, ops') \<Longrightarrow>
     \<exists>k. n \<le> k \<and> k < m \<and> fails_at k ops sd \<and>
       (\<forall>j. n \<le> j \<and> j < k \<longrightarrow> \<not> fails_at j ops sd \<and>
          stored_rollback_index ops' j = max (stored_rollback_index ops j) (rollback_indexes sd j)) \<and>
       (\<forall>j. k \<le> j \<longrightarrow> stored_rollback_index ops' j = stored_rollback_index ops j)"
proof (induction "m - n" arbitrary: n ops)
  case 0
  then show ?case by (simp add: rollback_loop_done)
next
  case (Suc d)
  let ?idx = "rollback_indexes sd"
  let ?w = "snd (write_rollback_index ops n (?idx n))"
  have nm: "n < m" and d: "d = m - Suc n" using Suc.hyps(2) by simp_all
  from rollback_loop_cases[OF Suc.prems nm] consider
      (stop) "fails_at n ops sd" "stored_rollback_index ops' = stored_rollback_index ops"
    | (keep) "\<not> fails_at n ops sd" "rollback_loop m (Suc n) ops sd = (False, ops')"
             "?idx n = 0 \<or> \<not> stored_rollback_index ops n < ?idx n"
    | (wrote) "\<not> fails_at n ops sd" "rollback_loop m (Suc n) ?w sd = (False, ops')"
              "stored_rollback_index ops n < ?idx n" "write_result ops n = AVB_IO_RESULT_OK"
    by blast
  then show ?case
  proof cases
    case stop
    with nm show ?thesis by (intro exI[of _ n]) auto
  next
    case keep
    from Suc.hyps(1)[OF d keep(2)]
    obtain k where k: "Suc n \<le> k" "k < m" "fails_at k ops sd"
       "\<forall>j. Suc n \<le> j \<and> j < k \<longrightarrow> \<not> fails_at j ops sd \<and>
          stored_rollback_index ops' j = max (stored_rollback_index ops j) (?idx j)"
       "\<forall>j. k \<le> j \<longrightarrow> stored_rollback_index ops' j = stored_rollback_index ops j"
      by blast
    have n_same: "stored_rollback_index ops' n = stored_rollback_index ops n"
      using rollback_loop_frame[OF keep(2), of n] by simp
    have n_max: "max (stored_rollback_index ops n) (?idx n) = stored_rollback_index ops n"
      using keep(3) by (auto simp: max_def)
    have "\<forall>j. n \<le> j \<and> j < k \<longrightarrow> \<not> fails_at j ops sd \<and>
          stored_rollback_index ops' j = max (stored_rollback_index ops j) (?idx j)"
    proof (intro allI impI)
      fix j assume "n \<le> j \<and> j < k"
      then show "\<not> fails_at j ops sd \<and>
          stored_rollback_index ops' j = max (stored_rollback_index ops j) (?idx j)"
        using k(4) n_same n_max keep(1) by (cases "j = n") auto
    qed
    with k show ?thesis by (intro exI[of _ k]) auto
  next
    case wrote
    note w = write_rollback_index_ok[OF wrote(4), of "?idx n"]
    from Suc.hyps(1)[OF d wrote(2)]
    obtain k where k: "Suc n \<le> k" "k < m" "fails_at k ?w sd"
       "\<forall>j. Suc n \<le> j \<and> j < k \<longrightarrow> \<not> fails_at j ?w sd \<and>
          stored_rollback_index ops' j = max (stored_rollback_index ?w j) (?idx j)"
       "\<forall>j. k \<le> j \<longrightarrow> stored_rollback_index ops' j = stored_rollback_index ?w j"
      by blast
    have same: "fails_at j ?w sd = fails_at j ops sd" if "j \<noteq> n" for j
      using that by (simp add: fails_at_def w)
    have fk: "fails_at k ops sd"
      using k(1,3) same[of k] by simp
    have n_new: "stored_rollback_index ops' n = ?idx n"
      using rollback_loop_frame[OF wrote(2), of n] by (simp add: w)
    have n_max: "max (stored_rollback_index ops n) (?idx n) = ?idx n"
      using wrote(3) by (auto simp: max_def)
    have a: "\<forall>j. n \<le> j \<and> j < k \<longrightarrow> \<not> fails_at j ops sd \<and>
          stored_rollback_index ops' j = max (stored_rollback_index ops j) (?idx j)"
    proof (intro allI impI)
      fix j assume j: "n \<le> j \<and> j < k"
      show "\<not> fails_at j ops sd \<and>
          stored_rollback_index ops' j = max (stored_rollback_index ops j) (?idx j)"
      proof (cases "j = n")
        case True
        with wrote(1) n_new n_max show ?thesis by simp
      next
        case False
        with j have "Suc n \<le> j \<and> j < k" by simp
        with k(4) same[OF False] False show ?thesis by (simp add: w)
      qed
    qed
    have b: "\<forall>j. k \<le> j \<longrightarrow> stored_rollback_index ops' j = stored_rollback_index ops j"
      using k(1,5) by (auto simp: w)
    from k(1,2) fk a b show ?thesis by (intro exI[of _ k]) auto
  qed
qed

text \<open>
  Claim C2. \<open>avb_update_stored_rollback_indexes_for_slot\<close> never decreases a stored
  rollback index; every call of \<open>write_rollback_index\<close> it makes is for a location
  below \<open>max_locations\<close> where the slot asserts a non-zero index greater than the
  stored one, and writes that index; when it returns true every location below
  \<open>max_locations\<close> holds the maximum of what was stored and what the slot asserts; the
  locations from \<open>max_locations\<close> on are never touched.
\<close>

theorem stored_rollback_indexes_never_decrease:
  assumes "avb_update_stored_rollback_indexes_for_slot max_locations ops slot_data = (ok, ops')"
  shows
    "(\<forall>n. stored_rollback_index ops n \<le> stored_rollback_index ops' n)
     \<and> (\<exists>ws. write_calls ops' = write_calls ops @ ws \<and>
           list_all (justified_write 0 max_locations ops slot_data) ws)
     \<and> (ok \<longrightarrow> (\<forall>n < max_locations.
           stored_rollback_index ops' n =
             max (stored_rollback_index ops n) (rollback_indexes slot_data n)))
     \<and> (\<forall>n \<ge> max_locations. stored_rollback_index ops' n = stored_rollback_index ops n)"
proof -
  from assms have l: "rollback_loop max_locations 0 ops slot_data = (ok, ops')"
    by (simp add: avb_update_stored_rollback_indexes_for_slot_def)
  have a: "\<forall>n. stored_rollback_index ops n \<le> stored_rollback_index ops' n"
    using rollback_loop_mono[OF l] by blast
  have b: "\<exists>ws. write_calls ops' = write_calls ops @ ws \<and>
      list_all (justified_write 0 max_locations ops slot_data) ws"
    by (rule rollback_loop_writes[OF l])
  have c: "ok \<longrightarrow> (\<forall>n < max_locations.
      stored_rollback_index ops' n =
        max (stored_rollback_index ops n) (rollback_indexes slot_data n))"
    using rollback_loop_success[of max_locations 0 ops slot_data ops'] l by auto
  have d: "\<forall>n \<ge> max_locations. stored_rollback_index ops' n = stored_rollback_index ops n"
    using rollback_loop_frame[OF l] by blast
  from a b c d show ?thesis by blast
qed

text \<open>
  Claim C2 at an input: with 7 and 1 stored and 5 and 3 asserted at locations 0 and 1,
  the call returns true, location 0 keeps 7, location 1 becomes 3, and the one write is
  that of 3 at location 1.
\<close>

theorem stored_rollback_indexes_never_decrease_witness:
  "fst (avb_update_stored_rollback_indexes_for_slot 32 example_ops example_slot_data)
   \<and> stored_rollback_index
       (snd (avb_update_stored_rollback_indexes_for_slot 32 example_ops example_slot_data)) 0 = 7
   \<and> stored_rollback_index
       (snd (avb_update_stored_rollback_indexes_for_slot 32 example_ops example_slot_data)) 1 = 3
   \<and> write_calls
       (snd (avb_update_stored_rollback_indexes_for_slot 32 example_ops example_slot_data))
       = [(1, 3)]"
proof -
  let ?r = "avb_update_stored_rollback_indexes_for_slot 32 example_ops example_slot_data"
  have ok: "fst ?r" by code_simp
  have wc: "write_calls (snd ?r) = [(1, 3)]" by code_simp
  have e: "?r = (True, snd ?r)" using ok by (simp add: prod_eq_iff)
  from stored_rollback_indexes_never_decrease[OF e]
  have m: "\<forall>n < 32. stored_rollback_index (snd ?r) n =
      max (stored_rollback_index example_ops n) (rollback_indexes example_slot_data n)"
    by blast
  have "stored_rollback_index (snd ?r) 0 = 7"
    using m[rule_format, of 0] by (simp add: example_ops_def example_slot_data_def)
  moreover have "stored_rollback_index (snd ?r) 1 = 3"
    using m[rule_format, of 1] by (simp add: example_ops_def example_slot_data_def)
  ultimately show ?thesis using ok wc by blast
qed

text \<open>
  Claim C4 fails as stated. With nothing stored and 5 and 3 asserted at locations 0
  and 1, the write at location 0 succeeds and the read at location 1 fails: the call
  returns false and location 0 has been advanced.
\<close>

theorem partial_advance_counterexample:
  "\<not> fst (avb_update_stored_rollback_indexes_for_slot 32 partial_advance_ops example_slot_data)
   \<and> stored_rollback_index
       (snd (avb_update_stored_rollback_indexes_for_slot 32 partial_advance_ops
               example_slot_data)) 0
     \<noteq> stored_rollback_index partial_advance_ops 0"
  by code_simp

text \<open>
  Claim C4 as amended. A failed read or write makes the update stop at once and return
  false: the update returns true exactly when no location below \<open>max_locations\<close>
  fails, so any location where the slot asserts an index and the read fails, or the
  index is greater than the stored one and the write fails, makes it return false.
  When it returns false it stopped at the first failing location \<open>k\<close>: the locations
  before \<open>k\<close> have been brought to the maximum of the stored and the asserted index,
  \<open>k\<close> and the locations after it hold what they held before the call (a write
  that fails stores nothing). No write is attempted at a location after one that
  fails. No stored index is decreased.
\<close>

theorem rollback_update_stops_at_failure:
  "(fst (avb_update_stored_rollback_indexes_for_slot max_locations ops slot_data) =
      (\<forall>k < max_locations. \<not> fails_at k ops slot_data))
   \<and> (\<not> fst (avb_update_stored_rollback_indexes_for_slot max_locations ops slot_data) \<longrightarrow>
       (\<exists>k. k < max_locations \<and> fails_at k ops slot_data \<and>
          (\<forall>j. j < k \<longrightarrow> \<not> fails_at j ops slot_data \<and>
             stored_rollback_index
               (snd (avb_update_stored_rollback_indexes_for_slot max_locations ops slot_data)) j =
               max (stored_rollback_index ops j) (rollback_indexes slot_data j)) \<and>
          (\<forall>j. k \<le> j \<longrightarrow>
             stored_rollback_index
               (snd (avb_update_stored_rollback_indexes_for_slot max_locations ops slot_data)) j =
               stored_rollback_index ops j)))
   \<and> (\<exists>ws. write_calls
               (snd (avb_update_stored_rollback_indexes_for_slot max_locations ops slot_data)) =
             write_calls ops @ ws \<and>
          (\<forall>w \<in> set ws. \<forall>k. fails_at k ops slot_data \<longrightarrow> fst w \<le> k))
   \<and> (\<forall>n. stored_rollback_index ops n \<le>
          stored_rollback_index
            (snd (avb_update_stored_rollback_indexes_for_slot max_locations ops slot_data)) n)"
proof -
  let ?r = "avb_update_stored_rollback_indexes_for_slot max_locations ops slot_data"
  have l: "rollback_loop max_locations 0 ops slot_data = (fst ?r, snd ?r)"
    by (simp add: avb_update_stored_rollback_indexes_for_slot_def)
  have c: "\<exists>ws. write_calls (snd ?r) = write_calls ops @ ws \<and>
          (\<forall>w \<in> set ws. \<forall>k. fails_at k ops slot_data \<longrightarrow> fst w \<le> k)"
    using rollback_loop_writes_before_failure[OF l] by simp
  have t: "\<forall>k < max_locations. \<not> fails_at k ops slot_data" if "fst ?r"
    using rollback_loop_true_no_failure[of max_locations 0 ops slot_data "snd ?r"] l that
    by simp
  have f: "\<exists>k. k < max_locations \<and> fails_at k ops slot_data \<and>
          (\<forall>j. j < k \<longrightarrow> \<not> fails_at j ops slot_data \<and>
             stored_rollback_index (snd ?r) j =
               max (stored_rollback_index ops j) (rollback_indexes slot_data j)) \<and>
          (\<forall>j. k \<le> j \<longrightarrow> stored_rollback_index (snd ?r) j = stored_rollback_index ops j)"
    if "\<not> fst ?r"
    using rollback_loop_failure[of max_locations 0 ops slot_data "snd ?r"] l that by simp
  have m: "\<forall>n. stored_rollback_index ops n \<le> stored_rollback_index (snd ?r) n"
    using rollback_loop_mono[OF l] by blast
  have e: "fst ?r = (\<forall>k < max_locations. \<not> fails_at k ops slot_data)"
    using t f by blast
  from e f c m show ?thesis by blast
qed

text \<open>
  Claim C4 as amended, at the input above: location 1 fails, so the update returns
  false; it stopped there, location 0 holds the asserted 5 and location 1 is unchanged.
\<close>

theorem rollback_update_stops_at_failure_witness:
  "fails_at 1 partial_advance_ops example_slot_data
   \<and> \<not> fst (avb_update_stored_rollback_indexes_for_slot 32 partial_advance_ops example_slot_data)
   \<and> stored_rollback_index
       (snd (avb_update_stored_rollback_indexes_for_slot 32 partial_advance_ops
               example_slot_data)) 0 = 5
   \<and> stored_rollback_index
       (snd (avb_update_stored_rollback_indexes_for_slot 32 partial_advance_ops
               example_slot_data)) 1 = 0"
proof -
  let ?r = "avb_update_stored_rollback_indexes_for_slot 32 partial_advance_ops example_slot_data"
  note main = rollback_update_stops_at_failure[of 32 partial_advance_ops example_slot_data]
  have f1: "fails_at 1 partial_advance_ops example_slot_data"
    by (simp add: fails_at_def partial_advance_ops_def example_slot_data_def)
  have "\<not> (\<forall>k < 32. \<not> fails_at k partial_advance_ops example_slot_data)"
    using f1 by (intro notI) (drule spec[of _ 1], simp)
  with main have nok: "\<not> fst ?r" by blast
  have only1: "fails_at k partial_advance_ops example_slot_data \<Longrightarrow> k = 1" for k
    by (auto simp: fails_at_def partial_advance_ops_def example_slot_data_def split: if_splits)
  from main nok obtain k where
    k: "fails_at k partial_advance_ops example_slot_data"
       "\<forall>j. j < k \<longrightarrow> \<not> fails_at j partial_advance_ops example_slot_data \<and>
          stored_rollback_index (snd ?r) j =
          max (stored_rollback_index partial_advance_ops j) (rollback_indexes example_slot_data j)"
       "\<forall>j. k \<le> j \<longrightarrow> stored_rollback_index (snd ?r) j = stored_rollback_index partial_advance_ops j"
    by blast
  from only1[OF k(1)] have k1: "k = 1" .
  have "stored_rollback_index (snd ?r) 0 = 5"
    using k(2)[rule_format, of 0] k1 by (simp add: partial_advance_ops_def example_slot_data_def)
  moreover have "stored_rollback_index (snd ?r) 1 = 0"
    using k(3)[rule_format, of 1] k1 by (simp add: partial_advance_ops_def)
  ultimately show ?thesis using nok f1 by blast
qed

subsection \<open>The command line\<close>

text \<open>
  Claim C9 fails as stated. For \<open>RECOVERY\<close>, with slots in use and a verified
  command line without \<open>root=\<close>, the \<open>root=PARTUUID=\<close> fragment is still prepended;
  and for \<open>NORMAL_BOOT\<close> the result does not start with the fragment the claim
  gives: \<open>root=PARTUUID=\<close> comes first, then the slot suffix, then
  \<open>skip_initramfs rootwait ro init=/init\<close>.
\<close>

theorem recovery_gets_root_fragment_counterexample:
  "prepend_slot_command_line example_avb_env (Some ''quiet'') RECOVERY (Some example_slot_data) =
     (EFI_SUCCESS,
      Some '' root=PARTUUID=0FC63DAF-8483-4772-8E79-3D69D8477DE4 androidboot.slot_suffix=_a quiet'')
   \<and> prepend_slot_command_line example_avb_env (Some ''quiet'') NORMAL_BOOT
       (Some example_slot_data) =
     (EFI_SUCCESS,
      Some ('' root=PARTUUID=0FC63DAF-8483-4772-8E79-3D69D8477DE4 androidboot.slot_suffix=_a ''
            @ ''skip_initramfs rootwait ro init=/init quiet''))"
  by code_simp

text \<open>
  Claim C9 as amended. With slots in use, an active slot and a command line to extend,
  \<open>prepend_slot_command_line\<close> puts in front of it, from the left: \<open>root=PARTUUID=\<close>
  with the UUID of the system partition when the verified command line has no
  \<open>root=\<close> (for every boot target, \<open>RECOVERY\<close> and \<open>MEMORY\<close> included), then the
  slot suffix, then \<open>skip_initramfs rootwait ro init=/init\<close> for every boot target but
  \<open>RECOVERY\<close> and \<open>MEMORY\<close> (whether or not the verified command line has
  \<open>root=\<close>).
\<close>

theorem slot_command_line_fragments:
  assumes "use_slot env"
    and "slot_active env = Some suffix"
    and "gpt_system_partition_uuid env = (EFI_SUCCESS, uuid)"
    and "cmdline vb = Some verified"
  shows "prepend_slot_command_line env (Some old) boot_target (Some vb) =
     (EFI_SUCCESS,
      Some ((if avb_strstr verified ''root='' = None then '' root=PARTUUID='' @ uuid @ '' '' else [])
            @ ''androidboot.slot_suffix='' @ suffix @ '' ''
            @ (if boot_target = RECOVERY \<or> boot_target = MEMORY then []
               else AVB_ROOTFS_PREFIX @ '' '')
            @ old))"
  using assms
  by (simp add: prepend_slot_command_line_def avb_prepend_command_line_rootfs_def
        prepend_command_line_def EFI_ERROR_def DISABLE_AVB_ROOTFS_PREFIX_def Let_def)

text \<open>
  Claim C9 as amended, at inputs: a verified command line with \<open>root=\<close> still gets
  \<open>skip_initramfs rootwait ro init=/init\<close> for \<open>NORMAL_BOOT\<close>, and one without it
  gets \<open>root=PARTUUID=\<close> for \<open>MEMORY\<close>.
\<close>

theorem slot_command_line_fragments_witness:
  "prepend_slot_command_line example_avb_env (Some ''quiet'') NORMAL_BOOT (Some rooted_slot_data) =
     (EFI_SUCCESS, Some ''androidboot.slot_suffix=_a skip_initramfs rootwait ro init=/init quiet'')
   \<and> prepend_slot_command_line example_avb_env (Some ''quiet'') MEMORY (Some example_slot_data) =
     (EFI_SUCCESS,
      Some '' root=PARTUUID=0FC63DAF-8483-4772-8E79-3D69D8477DE4 androidboot.slot_suffix=_a quiet'')"
proof -
  have e: "use_slot example_avb_env" "slot_active example_avb_env = Some ''_a''"
    "gpt_system_partition_uuid example_avb_env =
       (EFI_SUCCESS, ''0FC63DAF-8483-4772-8E79-3D69D8477DE4'')"
    by (simp_all add: example_avb_env_def)
  have c1: "cmdline rooted_slot_data = Some ''root=/dev/sda1 ro''"
    by (simp add: rooted_slot_data_def)
  have c2: "cmdline example_slot_data = Some ''console=ttyS0''"
    by (simp add: example_slot_data_def)
  have s1: "avb_strstr ''root=/dev/sda1 ro'' ''root='' \<noteq> None" by simp
  have s2: "avb_strstr ''console=ttyS0'' ''root='' = None" by simp
  from slot_command_line_fragments[OF e c1, of "''quiet''" NORMAL_BOOT]
    slot_command_line_fragments[OF e c2, of "''quiet''" MEMORY] s1 s2
  show ?thesis by (simp add: AVB_ROOTFS_PREFIX_def)
qed

subsection \<open>The trust state through the pipeline\<close>

lemma adapter_table_not_lower: "bs \<le> BOOT_STATE_RED \<Longrightarrow> bs \<le> adapter_table ok allow bs"
  by (auto simp: adapter_table_def BOOT_STATE_RED_def BOOT_STATE_ORANGE_def
        word_le_nat_alt word_less_nat_alt)

lemma get_avb_result_not_lower:
  assumes "bs \<le> BOOT_STATE_RED"
    and "get_avb_result boot_magic slot_data allow verify_result (Some bs) = (ret, Some bs')"
  shows "bs \<le> bs'"
proof (cases slot_data)
  case None
  with assms(2) show ?thesis by (simp add: get_avb_result_def)
next
  case (Some sd)
  show ?thesis
  proof (cases "loaded_partitions sd \<noteq> [] \<and>
      take BOOT_MAGIC_SIZE (data (hd (loaded_partitions sd))) = take BOOT_MAGIC_SIZE boot_magic")
    case True
    with assms(2) Some get_avb_result_good_magic[of sd boot_magic allow verify_result bs]
    show ?thesis using adapter_table_not_lower[OF assms(1)] by auto
  next
    case False
    with assms(2) Some show ?thesis
      by (auto simp: get_avb_result_def num_loaded_partitions_def avb_memcmp_def header_magic_def
            split: if_splits)
  qed
qed

lemma get_avb_flow_result_not_lower:
  assumes "bs \<le> BOOT_STATE_RED"
    and "get_avb_flow_result boot_magic slot_data allow flow_result (Some bs) = (ret, Some bs')"
  shows "bs \<le> bs'"
proof (cases slot_data)
  case None
  with assms(2) show ?thesis by (simp add: get_avb_flow_result_def)
next
  case (Some sd)
  show ?thesis
  proof (cases "loaded_partitions sd \<noteq> [] \<and>
      take BOOT_MAGIC_SIZE (data (hd (loaded_partitions sd))) = take BOOT_MAGIC_SIZE boot_magic")
    case True
    with assms(2) Some get_avb_flow_result_good_magic[of sd boot_magic allow flow_result bs]
    show ?thesis using adapter_table_not_lower[OF assms(1)] by auto
  next
    case False
    with assms(2) Some show ?thesis
      by (auto simp: get_avb_flow_result_def num_loaded_partitions_def avb_memcmp_def
            header_magic_def split: if_splits)
  qed
qed

text \<open>
  Claim C7 fails as stated. In a build without USERDEBUG \<open>efi_main\<close> enters the
  load/validate stage with RED; an image that loads and validates GREEN then lowers the
  state to GREEN.
\<close>

theorem red_lowered_counterexample:
  "fst (efi_main_device_state engineering_env) = BOOT_STATE_RED
   \<and> efi_main_load_validate engineering_env NORMAL_BOOT
       (fst (efi_main_device_state engineering_env)) EFI_SUCCESS [] = BOOT_STATE_GREEN
   \<and> BOOT_STATE_GREEN < BOOT_STATE_RED"
  by code_simp

text \<open>
  Claim C7 as amended. ORANGE is latched: entering the load/validate stage of
  \<open>efi_main\<close> with ORANGE, the state after it is ORANGE whatever \<open>validate_bootimage\<close>
  returns (and RED when the image did not load). A USERDEBUG build enters the stage
  with GREEN or ORANGE, and the stage never lowers either of them. The adapters
  \<open>get_avb_result\<close> and \<open>get_avb_flow_result\<close> never lower a state from GREEN to RED.
\<close>

theorem orange_latched:
  "efi_main_load_validate env boot_target BOOT_STATE_ORANGE ret bootimage =
     (if EFI_ERROR ret then BOOT_STATE_RED else BOOT_STATE_ORANGE)
   \<and> (USERDEBUG_build env \<longrightarrow>
        fst (efi_main_device_state env) \<in> {BOOT_STATE_GREEN, BOOT_STATE_ORANGE})
   \<and> (bs \<in> {BOOT_STATE_GREEN, BOOT_STATE_ORANGE} \<longrightarrow>
        bs \<le> efi_main_load_validate env boot_target bs ret bootimage)
   \<and> (bs \<le> BOOT_STATE_RED \<and>
        get_avb_result boot_magic slot_data allow verify_result (Some bs) = (r1, Some bs1) \<longrightarrow>
        bs \<le> bs1)
   \<and> (bs \<le> BOOT_STATE_RED \<and>
        get_avb_flow_result boot_magic slot_data allow flow_result (Some bs) = (r2, Some bs2) \<longrightarrow>
        bs \<le> bs2)"
proof -
  have a: "efi_main_load_validate env boot_target BOOT_STATE_ORANGE ret bootimage =
     (if EFI_ERROR ret then BOOT_STATE_RED else BOOT_STATE_ORANGE)"
    by (simp add: efi_main_load_validate_def)
  have b: "USERDEBUG_build env \<longrightarrow>
        fst (efi_main_device_state env) \<in> {BOOT_STATE_GREEN, BOOT_STATE_ORANGE}"
    by (simp add: efi_main_device_state_def)
  have c: "bs \<in> {BOOT_STATE_GREEN, BOOT_STATE_ORANGE} \<longrightarrow>
        bs \<le> efi_main_load_validate env boot_target bs ret bootimage"
    by (auto simp: efi_main_load_validate_def BOOT_STATE_GREEN_def BOOT_STATE_ORANGE_def
          BOOT_STATE_RED_def)
  from a b c get_avb_result_not_lower[of bs boot_magic slot_data allow verify_result r1 bs1]
    get_avb_flow_result_not_lower[of bs boot_magic slot_data allow flow_result r2 bs2]
  show ?thesis by blast
qed

text \<open>
  Claim C7 as amended, at an input: an unlocked device enters with ORANGE, its image
  validates RED, and the state after the stage is ORANGE.
\<close>

theorem orange_latched_witness:
  "fst (efi_main_device_state unlocked_env) = BOOT_STATE_ORANGE
   \<and> validate_bootimage unlocked_env NORMAL_BOOT [] = BOOT_STATE_RED
   \<and> efi_main_load_validate unlocked_env NORMAL_BOOT BOOT_STATE_ORANGE EFI_SUCCESS [] =
       BOOT_STATE_ORANGE"
proof -
  have a: "fst (efi_main_device_state unlocked_env) = BOOT_STATE_ORANGE" by code_simp
  have b: "validate_bootimage unlocked_env NORMAL_BOOT [] = BOOT_STATE_RED" by code_simp
  have c: "\<not> EFI_ERROR EFI_SUCCESS" by (simp add: EFI_ERROR_def)
  from orange_latched[of unlocked_env NORMAL_BOOT EFI_SUCCESS "[]"] a b c
  show ?thesis by simp
qed

subsection \<open>The magic key\<close>

text \<open>
  Whatever the environment, \<open>check_magic_key\<close> returns \<open>NORMAL_BOOT\<close> or
  \<open>FASTBOOT\<close>: no path of it returns \<open>RECOVERY\<close>.
\<close>

declare magic_key_loop.simps [simp del]

theorem check_magic_key_targets:
  "fst (check_magic_key env) = NORMAL_BOOT \<or> fst (check_magic_key env) = FASTBOOT"
proof -
  obtain var_ret var_value where v: "magic_key_timeout_var env = (var_ret, var_value)"
    by fastforce
  define wait_ms where "wait_ms =
    (if EFI_ERROR var_ret then EFI_RESET_WAIT_MS
     else if var_value > 1000 then EFI_RESET_WAIT_MS else var_value)"
  obtain ret key env' where l: "magic_key_loop wait_ms 0 EFI_NOT_READY 0 env = (ret, key, env')"
    by (metis prod.exhaust)
  show ?thesis
    using l by (simp add: check_magic_key_def v wait_ms_def)
qed

text \<open>
  Claim C3, at the input where the code departs from it: the down-arrow key is read at
  the first poll and \<open>ui_enforce_key_held\<close> reports that it was not held for
  \<open>FASTBOOT_HOLD_DELAY\<close>. \<open>check_magic_key\<close> returns \<open>NORMAL_BOOT\<close>, not
  \<open>RECOVERY\<close>.
\<close>

theorem short_press_is_normal_boot:
  "ui_keycode_to_event short_press_env (snd (ReadKeyStroke_result short_press_env 0)) = MAGIC_KEY
   \<and> \<not> ui_enforce_key_held short_press_env FASTBOOT_HOLD_DELAY MAGIC_KEY
   \<and> fst (check_magic_key short_press_env) = NORMAL_BOOT"
  by code_simp

subsection \<open>The bootloader control block\<close>

lemma of_char_0_iff: "(of_char c = (0::nat)) = (c = NUL)"
proof -
  have "(of_char NUL :: nat) = 0" by (simp add: NUL_def)
  then show ?thesis by (metis of_char_eq_iff)
qed

text \<open>Against a prefix without NUL, \<open>strncmpa\<close> over its length tests for that prefix.\<close>

lemma strncmpa_eq_0:
  "NUL \<notin> set p \<Longrightarrow> (strncmpa s p (length p) = 0) = (take (length p) s = p)"
proof (induction p arbitrary: s)
  case Nil
  then show ?case by simp
next
  case (Cons c p)
  then show ?case
    by (cases s) (auto simp: char_at0_def of_char_0_iff)
qed

lemma strncmpa_boot: "(strncmpa s ''boot-'' 5 = 0) = (take 5 s = ''boot-'')"
proof -
  have l: "length ''boot-'' = 5" by simp
  have n: "NUL \<notin> set ''boot-''" by (simp add: NUL_def)
  show ?thesis using strncmpa_eq_0[OF n, of s] unfolding l .
qed

lemma strncmpa_bootonce: "(strncmpa s ''bootonce-'' 9 = 0) = (take 9 s = ''bootonce-'')"
proof -
  have l: "length ''bootonce-'' = 9" by simp
  have n: "NUL \<notin> set ''bootonce-''" by (simp add: NUL_def)
  show ?thesis using strncmpa_eq_0[OF n, of s] unfolding l .
qed

lemma stra_to_str_cleared: "stra_to_str (s[0 := NUL]) = []"
  by (cases s) (simp_all add: stra_to_str_def)

lemma bootonce_is_not_boot: "take 9 s = ''bootonce-'' \<Longrightarrow> take 5 s \<noteq> ''boot-''"
proof
  assume a: "take 9 s = ''bootonce-''" and b: "take 5 s = ''boot-''"
  have "take 5 (take 9 s) = take 5 s" by simp
  with a b show False by simp
qed

text \<open>A one-shot command: the flag is set and the block is written back with both fields cleared.\<close>

lemma check_bcb_bootonce:
  assumes r: "\<not> EFI_ERROR (read_bcb_ret env)"
    and c: "take 9 (command (misc_bcb env)) = ''bootonce-''"
  shows "snd (snd (fst (check_bcb env)))"
    and "snd (check_bcb env) =
        snd (write_bcb env ((misc_bcb env)\<lparr>status := (status (misc_bcb env))[0 := NUL],
                                            command := (command (misc_bcb env))[0 := NUL]\<rparr>))"
  using r c bootonce_is_not_boot[OF c]
  by (simp_all add: check_bcb_def read_bcb_def Let_def strncmpa_boot strncmpa_bootonce
        split: option.splits prod.splits)

lemma check_bcb_status:
  assumes r: "\<not> EFI_ERROR (read_bcb_ret env)"
    and c: "char_at0 (status (misc_bcb env)) \<noteq> NUL"
  shows "\<exists>b. write_bcb_calls (snd (check_bcb env)) = write_bcb_calls env @ [b] \<and>
           stra_to_str (status b) = []"
  using r c
  by (auto simp add: check_bcb_def read_bcb_def write_bcb_def Let_def stra_to_str_cleared
        split: option.splits prod.splits)

lemma check_bcb_boot:
  assumes r: "\<not> EFI_ERROR (read_bcb_ret env)"
    and c: "take 5 (command (misc_bcb env)) = ''boot-''"
  shows "\<not> snd (snd (fst (check_bcb env))) \<and>
     command (misc_bcb (snd (check_bcb env))) = command (misc_bcb env) \<and>
     (\<exists>ws. write_bcb_calls (snd (check_bcb env)) = write_bcb_calls env @ ws \<and>
        (\<forall>b \<in> set ws. command b = command (misc_bcb env)))"
  using r c
  by (auto simp add: check_bcb_def read_bcb_def write_bcb_def Let_def strncmpa_boot
        split: option.splits prod.splits)

text \<open>What \<open>check_bcb\<close> returns does not depend on whether \<open>write_bcb\<close> succeeds.\<close>

lemma check_bcb_ignores_write_failure:
  "fst (check_bcb (env\<lparr>write_bcb_ret := r\<rparr>)) = fst (check_bcb env)"
proof -
  obtain target bcb2 dirty2 oneshot where d:
    "(if strncmpa (command ((misc_bcb env)\<lparr>status := (status (misc_bcb env))[0 := NUL]\<rparr>))
          ''boot-'' 5 = 0
      then (Some (stra_to_str (drop 5
                (command ((misc_bcb env)\<lparr>status := (status (misc_bcb env))[0 := NUL]\<rparr>)))),
            (misc_bcb env)\<lparr>status := (status (misc_bcb env))[0 := NUL]\<rparr>,
            char_at0 (status (misc_bcb env)) \<noteq> NUL, False)
      else if strncmpa (command ((misc_bcb env)\<lparr>status := (status (misc_bcb env))[0 := NUL]\<rparr>))
          ''bootonce-'' 9 = 0
      then (Some (stra_to_str (drop 9
                (command ((misc_bcb env)\<lparr>status := (status (misc_bcb env))[0 := NUL]\<rparr>)))),
            (misc_bcb env)\<lparr>status := (status (misc_bcb env))[0 := NUL],
                            command := (command ((misc_bcb env)
                               \<lparr>status := (status (misc_bcb env))[0 := NUL]\<rparr>))[0 := NUL]\<rparr>,
            True, True)
      else (None, (misc_bcb env)\<lparr>status := (status (misc_bcb env))[0 := NUL]\<rparr>,
            char_at0 (status (misc_bcb env)) \<noteq> NUL, False))
     = (target, bcb2, dirty2, oneshot)"
    by (metis prod.exhaust)
  show ?thesis
    by (cases target; cases dirty2)
       (simp_all add: check_bcb_def read_bcb_def write_bcb_def Let_def d)
qed

text \<open>
  Claim C6 fails as stated. The BCB holds \<open>bootonce-recovery\<close> and \<open>write_bcb\<close>
  fails: \<open>check_bcb\<close> still returns \<open>RECOVERY\<close> with \<open>oneshot\<close> set, and the next
  \<open>read_bcb\<close> returns the command as it was.
\<close>

theorem failed_write_back_counterexample:
  "take 9 (command (misc_bcb write_fails_env)) = ''bootonce-''
   \<and> fst (check_bcb write_fails_env) = (RECOVERY, None, True)
   \<and> stra_to_str (command (snd (read_bcb (snd (check_bcb write_fails_env))))) =
       ''bootonce-recovery''"
  by code_simp

text \<open>
  Claim C6 as amended. For a BCB that was read and whose command starts with
  \<open>bootonce-\<close>, \<open>check_bcb\<close> sets \<open>oneshot\<close> and calls \<open>write_bcb\<close> once, before it
  returns the target, with a block whose command is empty; when that write succeeds the
  next \<open>read_bcb\<close> returns an empty command. For a BCB with a non-empty status the
  block written back has an empty status. For a BCB whose command starts with
  \<open>boot-\<close>, \<open>oneshot\<close> stays clear and the command is the same in every block
  written and on the misc partition afterwards. A failure of \<open>write_bcb\<close> is not
  acted on: the target, the path and \<open>oneshot\<close> returned are the same whatever
  \<open>write_bcb\<close> returns.
\<close>

theorem check_bcb_write_back:
  assumes "\<not> EFI_ERROR (read_bcb_ret env)"
  shows
    "(take 9 (command (misc_bcb env)) = ''bootonce-'' \<longrightarrow>
        snd (snd (fst (check_bcb env))) \<and>
        (\<exists>b. write_bcb_calls (snd (check_bcb env)) = write_bcb_calls env @ [b] \<and>
           stra_to_str (command b) = [] \<and>
           (\<not> EFI_ERROR (write_bcb_ret env) \<longrightarrow>
              stra_to_str (command (snd (read_bcb (snd (check_bcb env))))) = [])))
     \<and> (char_at0 (status (misc_bcb env)) \<noteq> NUL \<longrightarrow>
        (\<exists>b. write_bcb_calls (snd (check_bcb env)) = write_bcb_calls env @ [b] \<and>
           stra_to_str (status b) = []))
     \<and> (take 5 (command (misc_bcb env)) = ''boot-'' \<longrightarrow>
        \<not> snd (snd (fst (check_bcb env))) \<and>
        command (misc_bcb (snd (check_bcb env))) = command (misc_bcb env) \<and>
        (\<exists>ws. write_bcb_calls (snd (check_bcb env)) = write_bcb_calls env @ ws \<and>
           (\<forall>b \<in> set ws. command b = command (misc_bcb env))))
     \<and> fst (check_bcb (env\<lparr>write_bcb_ret := r\<rparr>)) = fst (check_bcb env)"
proof -
  have a: "snd (snd (fst (check_bcb env))) \<and>
        (\<exists>b. write_bcb_calls (snd (check_bcb env)) = write_bcb_calls env @ [b] \<and>
           stra_to_str (command b) = [] \<and>
           (\<not> EFI_ERROR (write_bcb_ret env) \<longrightarrow>
              stra_to_str (command (snd (read_bcb (snd (check_bcb env))))) = []))"
    if c: "take 9 (command (misc_bcb env)) = ''bootonce-''"
    using check_bcb_bootonce[OF assms c]
    by (simp add: write_bcb_def read_bcb_def stra_to_str_cleared)
  from a check_bcb_status[OF assms] check_bcb_boot[OF assms]
    check_bcb_ignores_write_failure[where env = env and r = r]
  show ?thesis by blast
qed

text \<open>
  Claim C6 as amended, at an input: the BCB holds \<open>bootonce-recovery\<close> and the status
  \<open>OKAY\<close>. The target is \<open>RECOVERY\<close> with \<open>oneshot\<close> set, the BCB read next has an
  empty command and an empty status, and the same is returned when the write fails.
\<close>

theorem check_bcb_write_back_witness:
  "fst (check_bcb bootonce_env) = (RECOVERY, None, True)
   \<and> stra_to_str (command (snd (read_bcb (snd (check_bcb bootonce_env))))) = []
   \<and> stra_to_str (status (snd (read_bcb (snd (check_bcb bootonce_env))))) = []
   \<and> fst (check_bcb write_fails_env) = (RECOVERY, None, True)"
proof -
  have r: "\<not> EFI_ERROR (read_bcb_ret bootonce_env)" by code_simp
  have w: "\<not> EFI_ERROR (write_bcb_ret bootonce_env)" by code_simp
  have c: "take 9 (command (misc_bcb bootonce_env)) = ''bootonce-''" by code_simp
  have t: "fst (check_bcb bootonce_env) = (RECOVERY, None, True)" by code_simp
  have s: "stra_to_str (status (snd (read_bcb (snd (check_bcb bootonce_env))))) = []"
    by code_simp
  note main = check_bcb_write_back[OF r, where r = EFI_DEVICE_ERROR]
  from main c w
  have e: "stra_to_str (command (snd (read_bcb (snd (check_bcb bootonce_env))))) = []"
    by blast
  from main t have "fst (check_bcb write_fails_env) = (RECOVERY, None, True)"
    by (simp add: write_fails_env_def)
  with t s e show ?thesis by blast
qed

subsection \<open>The priority order\<close>

declare command_line_loop.simps [simp del]

lemma command_line_loop_unfold:
  "command_line_loop argv pos bt env =
     (if pos < length argv then
        if argv ! pos = ''-f'' then command_line_loop argv (Suc pos) FASTBOOT env
        else if \<not> USER_build env \<and> argv ! pos = ''-U'' then
          (EXIT_SHELL,
           env\<lparr>unittest_main_calls := unittest_main_calls env @
                 [if Suc pos < length argv then Some (argv ! Suc pos) else None]\<rparr>)
        else if argv ! pos = ''-a'' then
          if Suc pos < length argv then command_line_loop argv (Suc (Suc pos)) FASTBOOT env
          else (bt, env)
        else if pos = 0 then command_line_loop argv (Suc pos) bt env
        else (bt, env)
      else (bt, env))"
  apply (subst command_line_loop.simps)
  apply (simp add: StrCmp_def not_less)
  done

text \<open>Only \<open>-U\<close> changes the state, and then the result is \<open>EXIT_SHELL\<close>.\<close>

lemma command_line_loop_state:
  "fst (command_line_loop argv pos bt env) \<noteq> EXIT_SHELL \<Longrightarrow>
     snd (command_line_loop argv pos bt env) = env"
proof (induction "length argv - pos" arbitrary: pos bt rule: less_induct)
  case less
  have next1: "snd (command_line_loop argv (Suc pos) b env) = env"
    if "pos < length argv" "fst (command_line_loop argv (Suc pos) b env) \<noteq> EXIT_SHELL" for b
    using less.hyps[of "Suc pos" b] that by simp
  have next2: "snd (command_line_loop argv (Suc (Suc pos)) b env) = env"
    if "pos < length argv" "fst (command_line_loop argv (Suc (Suc pos)) b env) \<noteq> EXIT_SHELL"
    for b
    using less.hyps[of "Suc (Suc pos)" b] that by simp
  show ?case
  proof (cases "pos < length argv")
    case False
    then show ?thesis by (auto simp: command_line_loop_unfold[of argv pos])
  next
    case True
    consider (f) "argv ! pos = ''-f''"
      | (u) "argv ! pos \<noteq> ''-f''" "\<not> USER_build env \<and> argv ! pos = ''-U''"
      | (a) "argv ! pos \<noteq> ''-f''" "\<not> (\<not> USER_build env \<and> argv ! pos = ''-U'')"
            "argv ! pos = ''-a''"
      | (other) "argv ! pos \<noteq> ''-f''" "\<not> (\<not> USER_build env \<and> argv ! pos = ''-U'')"
            "argv ! pos \<noteq> ''-a''"
      by blast
    then show ?thesis
    proof cases
      case f
      with True have e: "command_line_loop argv pos bt env =
          command_line_loop argv (Suc pos) FASTBOOT env"
        by (auto simp: command_line_loop_unfold[of argv pos])
      with less.prems next1[OF True, of FASTBOOT] show ?thesis by simp
    next
      case u
      with True have "fst (command_line_loop argv pos bt env) = EXIT_SHELL"
        by (auto simp: command_line_loop_unfold[of argv pos])
      with less.prems show ?thesis by simp
    next
      case a
      show ?thesis
      proof (cases "Suc pos < length argv")
        case False
        with a True show ?thesis by (auto simp: command_line_loop_unfold[of argv pos])
      next
        case s: True
        with a True have e: "command_line_loop argv pos bt env =
            command_line_loop argv (Suc (Suc pos)) FASTBOOT env"
          by (auto simp: command_line_loop_unfold[of argv pos])
        with less.prems next2[OF True, of FASTBOOT] show ?thesis by simp
      qed
    next
      case other
      show ?thesis
      proof (cases "pos = 0")
        case False
        with other True show ?thesis by (auto simp: command_line_loop_unfold[of argv pos])
      next
        case z: True
        with other True have e: "command_line_loop argv pos bt env =
            command_line_loop argv (Suc pos) bt env"
          by (auto simp: command_line_loop_unfold[of argv 0])
        with less.prems next1[OF True, of bt] show ?thesis by simp
      qed
    qed
  qed
qed

text \<open>The target found depends on the arguments and the build only.\<close>

lemma command_line_loop_target:
  "USER_build env' = USER_build env \<Longrightarrow>
     fst (command_line_loop argv pos bt env') = fst (command_line_loop argv pos bt env)"
proof (induction "length argv - pos" arbitrary: pos bt rule: less_induct)
  case less
  show ?case
  proof (cases "pos < length argv")
    case False
    then show ?thesis
      unfolding command_line_loop_unfold[of argv pos bt env']
        command_line_loop_unfold[of argv pos bt env]
      by simp
  next
    case True
    have next1: "fst (command_line_loop argv (Suc pos) b env') =
        fst (command_line_loop argv (Suc pos) b env)" for b
      using less.hyps[of "Suc pos" b] True less.prems by simp
    have next2: "fst (command_line_loop argv (Suc (Suc pos)) b env') =
        fst (command_line_loop argv (Suc (Suc pos)) b env)" for b
      using less.hyps[of "Suc (Suc pos)" b] True less.prems by simp
    show ?thesis
      unfolding command_line_loop_unfold[of argv pos bt env']
        command_line_loop_unfold[of argv pos bt env]
      by (simp only: next1 next2 less.prems fst_conv split: if_splits) simp
  qed
qed

lemma check_command_line_no_match:
  assumes "fst (check_command_line env) = NORMAL_BOOT"
  shows "check_command_line (debug msg env) = (NORMAL_BOOT, debug msg env)"
proof -
  obtain ret argv where g: "get_argv env = (ret, argv)" by fastforce
  then have g': "get_argv (debug msg env) = (ret, argv)" by (simp add: debug_def)
  show ?thesis
  proof (cases "EFI_ERROR ret")
    case True
    with g' show ?thesis by (simp add: check_command_line_def)
  next
    case False
    have u: "USER_build (debug msg env) = USER_build env" by (simp add: debug_def)
    from assms g False have "fst (command_line_loop argv 0 NORMAL_BOOT env) = NORMAL_BOOT"
      by (simp add: check_command_line_def)
    with command_line_loop_target[OF u, of argv 0 NORMAL_BOOT]
    have t: "fst (command_line_loop argv 0 NORMAL_BOOT (debug msg env)) = NORMAL_BOOT" by simp
    then have "snd (command_line_loop argv 0 NORMAL_BOOT (debug msg env)) = debug msg env"
      using command_line_loop_state[of argv 0 NORMAL_BOOT "debug msg env"] by simp
    with t have "command_line_loop argv 0 NORMAL_BOOT (debug msg env) =
        (NORMAL_BOOT, debug msg env)"
      by (simp add: prod_eq_iff)
    with g' False show ?thesis by (simp add: check_command_line_def)
  qed
qed

text \<open>\<open>choose_boot_target\<close> is the first match over the order with \<open>DNX\<close> ignored.\<close>

lemma choose_boot_target_first_match:
  "(fst (fst (choose_boot_target env)), snd (choose_boot_target env)) =
     first_match priority_order env"
proof -
  obtain t1 e1 where c1:
    "check_command_line (debug ''Bootlogic: Check osloader command line...'' env) = (t1, e1)"
    by fastforce
  obtain t3 e3 where c3:
    "check_magic_key (debug ''Bootlogic: Check magic key...''
       (debug ''Bootlogic: Check fastboot sentinel...'' e1)) = (t3, e3)"
    by fastforce
  obtain t4 e4 where c4:
    "check_watchdog (debug ''Bootlogic: Check watchdog...'' e3) = (t4, e4)"
    by fastforce
  obtain t6 p6 o6 e6 where c6:
    "check_bcb (debug ''Bootlogic: Check BCB...''
       (debug ''Bootlogic: Check battery insertion...'' e4)) = ((t6, p6, o6), e6)"
    by (metis prod.exhaust)
  obtain t7 e7 where c7:
    "check_loader_entry_one_shot (debug ''Bootlogic: Check reboot target...'' e6) = (t7, e7)"
    by fastforce
  show ?thesis
    by (simp add: choose_boot_target_def priority_order_def checks_before_one_shot_def
        checks_after_one_shot_def ignoring_DNX_def battery_level_check_def Let_def
        c1 c3 c4 c6 c7)
qed

lemma sentinel_wins:
  assumes "file_exists env FASTBOOT_SENTINEL"
    and "fst (check_command_line env) = NORMAL_BOOT"
  shows "choose_boot_target env =
     ((FASTBOOT, None, True),
      env\<lparr>debug_log := debug_log env @
            [''Bootlogic: Check osloader command line...'',
             ''Bootlogic: Check fastboot sentinel...'']\<rparr>)"
proof -
  let ?e1 = "debug ''Bootlogic: Check osloader command line...'' env"
  let ?e2 = "debug ''Bootlogic: Check fastboot sentinel...'' ?e1"
  have c: "check_command_line ?e1 = (NORMAL_BOOT, ?e1)"
    by (rule check_command_line_no_match[OF assms(2)])
  have f: "check_fastboot_sentinel ?e2 = FASTBOOT"
    using assms(1) by (simp add: check_fastboot_sentinel_def debug_def)
  have "choose_boot_target env = ((FASTBOOT, None, True), ?e2)"
    by (simp add: choose_boot_target_def c f Let_def)
  then show ?thesis by (simp add: debug_def)
qed

text \<open>
  Claim C5 fails as stated. With every earlier check at \<open>NORMAL_BOOT\<close> and "dnx" in
  LoaderEntryOneShot, the one-shot check is the first with another result (\<open>DNX\<close>),
  which by the order as stated would win; \<open>choose_boot_target\<close> goes on to the
  battery level and returns \<open>CHARGER\<close>.
\<close>

theorem dnx_one_shot_counterexample:
  "fst (first_match checks_before_one_shot dnx_one_shot_env) = NORMAL_BOOT
   \<and> fst (check_loader_entry_one_shot
           (debug ''Bootlogic: Check reboot target...''
              (snd (first_match checks_before_one_shot dnx_one_shot_env)))) = DNX
   \<and> fst (first_match priority_order_as_stated dnx_one_shot_env) = DNX
   \<and> fst (fst (choose_boot_target dnx_one_shot_env)) = CHARGER"
  by code_simp

text \<open>
  Claim C5 as amended. \<open>choose_boot_target\<close> evaluates its checks in the order
  command line, fastboot sentinel, magic key, watchdog, battery inserted, BCB,
  LoaderEntryOneShot, battery level, charger wake, each on the state the earlier ones
  left, and returns the result of the first that is not \<open>NORMAL_BOOT\<close>, where a
  \<open>DNX\<close> from LoaderEntryOneShot counts as \<open>NORMAL_BOOT\<close>; the checks after that one
  are not run. In particular, when the sentinel exists and the command line gave
  \<open>NORMAL_BOOT\<close>, the result is \<open>FASTBOOT\<close> and the state is the one on entry but for
  the two log lines of the checks that were run.
\<close>

theorem first_match_wins:
  "(fst (fst (choose_boot_target env)), snd (choose_boot_target env)) =
     first_match priority_order env
   \<and> (file_exists env FASTBOOT_SENTINEL \<and> fst (check_command_line env) = NORMAL_BOOT \<longrightarrow>
        choose_boot_target env =
          ((FASTBOOT, None, True),
           env\<lparr>debug_log := debug_log env @
                 [''Bootlogic: Check osloader command line...'',
                  ''Bootlogic: Check fastboot sentinel...'']\<rparr>))"
  using choose_boot_target_first_match[of env] sentinel_wins[of env] by blast

text \<open>
  Claim C5 as amended, at an input: the sentinel exists while the down-arrow key is
  held and the BCB asks for a one-shot recovery. The result is \<open>FASTBOOT\<close>; no key
  was read and the BCB was not written.
\<close>

theorem first_match_wins_witness:
  "fst (choose_boot_target sentinel_env) = (FASTBOOT, None, True)
   \<and> debug_log (snd (choose_boot_target sentinel_env)) =
       [''Bootlogic: Check osloader command line...'', ''Bootlogic: Check fastboot sentinel...'']
   \<and> key_reads (snd (choose_boot_target sentinel_env)) = 0
   \<and> write_bcb_calls (snd (choose_boot_target sentinel_env)) = []
   \<and> misc_bcb (snd (choose_boot_target sentinel_env)) = bootonce_bcb"
proof -
  have s: "file_exists sentinel_env FASTBOOT_SENTINEL" by (simp add: sentinel_env_def)
  have c: "fst (check_command_line sentinel_env) = NORMAL_BOOT" by code_simp
  have d: "debug_log sentinel_env = []" "key_reads sentinel_env = 0"
    "write_bcb_calls sentinel_env = []" "misc_bcb sentinel_env = bootonce_bcb"
    by (simp_all add: sentinel_env_def quiet_env_def)
  from first_match_wins[of sentinel_env] s c
  have "choose_boot_target sentinel_env =
          ((FASTBOOT, None, True),
           sentinel_env\<lparr>debug_log := debug_log sentinel_env @
                 [''Bootlogic: Check osloader command line...'',
                  ''Bootlogic: Check fastboot sentinel...'']\<rparr>)"
    by blast
  then show ?thesis by (simp add: d)
qed


end
